theory Spec2Isabelle
  imports Complex_Main "HOL-Library.Sublist"
begin

section \<open>Go values used by the incident-diagnosis core\<close>

text \<open>
  Go strings are byte sequences: \<open>len\<close> counts bytes and \<open>s[:n]\<close> slices bytes, so a
  Go string is a \<open>string\<close> (a list of 8-bit characters). A \<open>time.Time\<close> is an instant
  in nanoseconds and a \<open>time.Duration\<close> a number of nanoseconds; \<open>t.Add(d)\<close> is
  addition. Both are unbounded integers here: the saturation of \<open>time.Time\<close> and the
  wrap-around of the 64-bit duration at the ends of their ranges are not modelled. A
  \<open>float64\<close> metric is a real number (the code below only compares metrics with zero,
  copies them and scales them by 100 for printing; NaN and infinities are not modelled).
\<close>

type_synonym Time = int
type_synonym Duration = int

definition Time_Add :: "Time \<Rightarrow> Duration \<Rightarrow> Time" where
  "Time_Add t d = t + d"

text \<open>Go errors: a message, or an error wrapped by \<open>fmt.Errorf("...: %w", err)\<close>.\<close>

datatype error = Err string | Wrapped string error

text \<open>A run-time panic: slice bounds out of range, or a nil pointer dereference.\<close>

datatype panic = SliceBoundsOutOfRange nat nat | NilPointerDereference

text \<open>\<open>s[:n]\<close> on a Go string: panics when \<open>n\<close> exceeds the length.\<close>

definition slice_to :: "string \<Rightarrow> nat \<Rightarrow> panic + string" where
  "slice_to s n = (if n \<le> length s then Inr (take n s) else Inl (SliceBoundsOutOfRange n (length s)))"

text \<open>\<open>m[k]\<close> on a Go \<open>map[string]string\<close>: the empty string when the key is absent (also on a nil map).\<close>

definition map_index :: "(string \<rightharpoonup> string) \<Rightarrow> string \<Rightarrow> string" where
  "map_index m k = (case m k of None \<Rightarrow> [] | Some v \<Rightarrow> v)"

text \<open>
  \<open>strings.ToLower\<close> on the bytes \<open>A\<close>..\<open>Z\<close>; every other byte is kept (the
  mapping of non-ASCII letters is outside this model).
\<close>

definition lower_byte :: "char \<Rightarrow> char" where
  "lower_byte c =
     (case map_of (zip ''ABCDEFGHIJKLMNOPQRSTUVWXYZ'' ''abcdefghijklmnopqrstuvwxyz'') c of
        None \<Rightarrow> c
      | Some l \<Rightarrow> l)"

definition ToLower :: "string \<Rightarrow> string" where
  "ToLower s = map lower_byte s"

text \<open>\<open>strings.Contains(s, substr)\<close>: \<open>substr\<close> occurs in \<open>s\<close> as a contiguous block.\<close>

fun Contains :: "string \<Rightarrow> string \<Rightarrow> bool" where
  "Contains [] substr = (substr = [])"
| "Contains (c # cs) substr = (prefix substr (c # cs) \<or> Contains cs substr)"

text \<open>
  Formatting and parsing routines of the Go standard library that the code calls and
  whose text is not part of the repository; they are parameters of the model.
\<close>

record GoLib =
  fmt_d :: "int \<Rightarrow> string"
  fmt_2f :: "real \<Rightarrow> string"
  Format_RFC3339 :: "Time \<Rightarrow> string"
  Format_DateTime :: "Time \<Rightarrow> string"
  Format_RFC822 :: "Time \<Rightarrow> string"
  Duration_String :: "Duration \<Rightarrow> string"
  ParseDuration :: "string \<Rightarrow> Duration"
  Parse_RFC3339 :: "string \<Rightarrow> Time"

section \<open>Data model (package models, package tempo)\<close>

record MetricsSummary =
  LatencyP99 :: real
  LatencyAvg :: real
  ErrorRate :: real
  RPS :: real
  MemoryUsage :: real
  BaselineLatency :: real
  BaselineErrorRate :: real
  BaselineRPS :: real

definition MetricsSummary_zero :: MetricsSummary where
  "MetricsSummary_zero = \<lparr>LatencyP99 = 0, LatencyAvg = 0, ErrorRate = 0, RPS = 0, MemoryUsage = 0,
     BaselineLatency = 0, BaselineErrorRate = 0, BaselineRPS = 0\<rparr>"

record CommitInfo =
  SHA :: string
  Message :: string
  Author :: string
  Email :: string
  URL :: string
  Timestamp :: Time
  PRNumber :: int

record Span =
  SpanID :: string
  TraceID :: string
  SpanServiceName :: string
  OperationName :: string
  StartTime :: Time
  DurationMs :: int
  Status :: string

record TraceContext =
  SlowSpans :: "Span list"
  ErrorSpans :: "Span list"
  TraceCount :: int
  P99Latency :: real

definition TraceContext_zero :: TraceContext where
  "TraceContext_zero = \<lparr>SlowSpans = [], ErrorSpans = [], TraceCount = 0, P99Latency = 0\<rparr>"

record AlertInfo =
  Name :: string
  Severity :: string
  Summary :: string
  Labels :: "string \<rightharpoonup> string"
  StartedAt :: Time

definition AlertInfo_zero :: AlertInfo where
  "AlertInfo_zero = \<lparr>Name = [], Severity = [], Summary = [], Labels = Map.empty, StartedAt = 0\<rparr>"

record TimeWindow =
  Start :: Time
  End :: Time
  Duration :: string

record LogEntry =
  LogTimestamp :: Time
  Level :: string
  LogMessage :: string
  Service :: string

record AnalysisContext =
  ServiceName :: string
  Alert :: AlertInfo
  Metrics :: MetricsSummary
  RecentCommits :: "CommitInfo list"
  ErrorLogs :: "LogEntry list"
  Traces :: TraceContext
  TimeWindow :: TimeWindow

section \<open>Remediation rule engine (package remediation)\<close>

record Suggestion =
  Title :: string
  Description :: string
  Action :: string

definition latency_suggestions :: "AlertInfo \<Rightarrow> Suggestion list" where
  "latency_suggestions alert =
     [\<lparr>Title = ''Check Database Query Performance'',
       Description = ''High latency is often caused by unoptimized queries or missing indexes.'',
       Action = ''Review slow query logs in your database provider or check APM traces for bottleneck spans.''\<rparr>,
      \<lparr>Title = ''Scale Up Service Replicas'',
       Description = ''If CPU/Memory is also high, the service might be underprovisioned for current traffic.'',
       Action = ''kubectl scale deployment '' @ map_index (Labels alert) ''service_name'' @ '' --replicas=3''\<rparr>]"

definition error_rate_suggestions :: "Suggestion list" where
  "error_rate_suggestions =
     [\<lparr>Title = ''Investigate Recent Deployments'',
       Description = ''Spikes in error rates strongly correlate with recent code deployments.'',
       Action = ''Check GitHub Actions or ArgoCD for recent rollouts to this service.''\<rparr>,
      \<lparr>Title = ''Check Downstream Dependencies'',
       Description = ''Ensure that upstream endpoints or databases are not rejecting connections or timing out.'',
       Action = ''Review error logs in Loki for 'connection refused' or 'timeout' errors.''\<rparr>]"

definition cpu_suggestions :: "Suggestion list" where
  "cpu_suggestions =
     [\<lparr>Title = ''Review CPU Limits'',
       Description = ''The container might be getting heavily throttled by Kubernetes CPU limits.'',
       Action = ''Consider increasing the CPU limit in the pod's resources configuration.''\<rparr>]"

definition memory_suggestions :: "Suggestion list" where
  "memory_suggestions =
     [\<lparr>Title = ''Investigate Memory Leaks'',
       Description = ''If memory climbs steadily until OOMKilled, there may be a memory leak.'',
       Action = ''Capture a heap profile (pprof) and analyze memory allocations.''\<rparr>]"

text \<open>
  \<open>GetSuggestions\<close>: four sequential \<open>if\<close> blocks, each appending its suggestions to the
  slice built so far.
\<close>

definition GetSuggestions :: "AlertInfo \<Rightarrow> Suggestion list" where
  "GetSuggestions alert =
     (let suggestions = [];
          alertName = ToLower (Name alert);
          suggestions = (if Contains alertName ''highlatency'' \<or> Contains alertName ''latency''
                         then suggestions @ latency_suggestions alert else suggestions);
          suggestions = (if Contains alertName ''errorrate'' \<or> Contains alertName ''high_error_rate''
                         then suggestions @ error_rate_suggestions else suggestions);
          suggestions = (if Contains alertName ''cpu'' \<or> Contains alertName ''throttling''
                         then suggestions @ cpu_suggestions else suggestions);
          suggestions = (if Contains alertName ''memory'' \<or> Contains alertName ''oom''
                         then suggestions @ memory_suggestions else suggestions)
      in suggestions)"

section \<open>Collaborators of the orchestrator (clients and configuration)\<close>

text \<open>
  The wire-level clients are outside the core: each client method is a function from its
  arguments to its outcome, \<open>Inl\<close> for a non-nil error (every caller below ignores the
  value returned next to a non-nil error).
\<close>

record PromClient =
  QueryLatencyP99 :: "string \<Rightarrow> Time \<Rightarrow> Time \<Rightarrow> error + real"
  QueryErrorRate :: "string \<Rightarrow> Time \<Rightarrow> Time \<Rightarrow> error + real"
  QueryRPS :: "string \<Rightarrow> Time \<Rightarrow> Time \<Rightarrow> error + real"

record CommitAuthor =
  CA_Name :: string
  CA_Email :: string
  CA_Date :: string

record Commit =
  C_SHA :: string
  C_Message :: string
  C_Author :: CommitAuthor
  C_URL :: string
  C_Committer :: CommitAuthor

record GithubClient =
  FetchCommitsByRepo :: "string \<Rightarrow> Time \<Rightarrow> error + Commit list"

record Trace =
  T_TraceID :: string
  T_Spans :: "Span list"

record TempoClient =
  GetTracesByService :: "string \<Rightarrow> Time \<Rightarrow> Time \<Rightarrow> error + Trace list"
  SearchSlowSpans :: "string \<Rightarrow> int \<Rightarrow> error + Span list"

record Config =
  Analysis_MetricsWindow :: string
  Analysis_CommitsLookback :: string
  GitHub_APIURL :: string

definition Second :: Duration where "Second = 1000000000"
definition Minute :: Duration where "Minute = 60 * Second"
definition Hour :: Duration where "Hour = 60 * Minute"

text \<open>\<open>d, _ := time.ParseDuration(...)\<close>: the error is dropped; a zero duration selects the default.\<close>

definition GetCommitsLookbackDuration :: "GoLib \<Rightarrow> Config \<Rightarrow> Duration" where
  "GetCommitsLookbackDuration L c =
     (let d = ParseDuration L (Analysis_CommitsLookback c) in if d = 0 then 24 * Hour else d)"

definition GetMetricsWindowDuration :: "GoLib \<Rightarrow> Config \<Rightarrow> Duration" where
  "GetMetricsWindowDuration L c =
     (let d = ParseDuration L (Analysis_MetricsWindow c) in if d = 0 then 15 * Minute else d)"

section \<open>Context orchestrator (package orchestrator)\<close>

text \<open>The Tempo client is a pointer that may be nil (tracing disabled).\<close>

record Orchestrator =
  promClient :: PromClient
  githubClient :: GithubClient
  tempoClient :: "TempoClient option"
  cfg :: Config

text \<open>
  \<open>fetchMetrics\<close>: three queries, each failure only logged; the returned error is always nil.
\<close>

definition fetchMetrics :: "Orchestrator \<Rightarrow> string \<Rightarrow> Time \<Rightarrow> Time \<Rightarrow> MetricsSummary \<times> error option" where
  "fetchMetrics o' serviceName start end' =
     (let metrics = MetricsSummary_zero;
          metrics = (case QueryLatencyP99 (promClient o') serviceName start end' of
                       Inl err \<Rightarrow> metrics
                     | Inr latency \<Rightarrow> metrics\<lparr>LatencyP99 := latency\<rparr>);
          metrics = (case QueryErrorRate (promClient o') serviceName start end' of
                       Inl err \<Rightarrow> metrics
                     | Inr errorRate \<Rightarrow> metrics\<lparr>ErrorRate := errorRate\<rparr>);
          metrics = (case QueryRPS (promClient o') serviceName start end' of
                       Inl err \<Rightarrow> metrics
                     | Inr rps \<Rightarrow> metrics\<lparr>RPS := rps\<rparr>)
      in (metrics, None))"

definition parseTime :: "GoLib \<Rightarrow> string \<Rightarrow> Time" where
  "parseTime L s = Parse_RFC3339 L s"

definition toCommitInfo :: "GoLib \<Rightarrow> Commit \<Rightarrow> CommitInfo" where
  "toCommitInfo L c =
     \<lparr>SHA = C_SHA c, Message = C_Message c, Author = CA_Name (C_Author c),
      Email = CA_Email (C_Author c), URL = C_URL c,
      Timestamp = parseTime L (CA_Date (C_Author c)), PRNumber = 0\<rparr>"

text \<open>\<open>fetchCommits\<close>: a nil slice (the empty list) together with the error on failure.\<close>

definition fetchCommits :: "GoLib \<Rightarrow> Orchestrator \<Rightarrow> string \<Rightarrow> Time \<Rightarrow> CommitInfo list \<times> error option" where
  "fetchCommits L o' serviceName since =
     (let repo = GitHub_APIURL (cfg o');
          repo = (if repo = [] then serviceName else repo)
      in case FetchCommitsByRepo (githubClient o') repo since of
           Inl err \<Rightarrow> ([], Some err)
         | Inr commits \<Rightarrow> (map (toCommitInfo L) commits, None))"

text \<open>
  \<open>fetchTraces\<close>: with a nil client the zero value and a nil error are returned before
  any client method is called.
\<close>

definition fetchTraces :: "Orchestrator \<Rightarrow> string \<Rightarrow> Time \<Rightarrow> Time \<Rightarrow> TraceContext \<times> error option" where
  "fetchTraces o' serviceName start end' =
     (let traceCtx = TraceContext_zero
      in case tempoClient o' of
           None \<Rightarrow> (traceCtx, None)
         | Some tc \<Rightarrow>
             (case GetTracesByService tc serviceName start end' of
                Inl err \<Rightarrow> (traceCtx, Some err)
              | Inr traces \<Rightarrow>
                  (let traceCtx = traceCtx\<lparr>TraceCount := int (length traces)\<rparr>;
                       traceCtx = (case SearchSlowSpans tc serviceName 500 of
                                     Inl err \<Rightarrow> traceCtx
                                   | Inr slowSpans \<Rightarrow> traceCtx\<lparr>SlowSpans := slowSpans\<rparr>)
                   in (traceCtx, None))))"

text \<open>The message each goroutine sends on the result channel; unset fields are zero values.\<close>

record result =
  r_metrics :: MetricsSummary
  r_commits :: "CommitInfo list"
  r_traces :: TraceContext
  r_err :: "error option"

definition result_zero :: result where
  "result_zero = \<lparr>r_metrics = MetricsSummary_zero, r_commits = [], r_traces = TraceContext_zero, r_err = None\<rparr>"

datatype task = MetricsTask | CommitsTask | TracesTask

text \<open>
  The three goroutines write to one buffered channel; the order in which the collector
  receives their messages is not fixed by the program. All six orders are possible.
\<close>

datatype arrival = MCT | MTC | CMT | CTM | TMC | TCM

fun arrival_order :: "arrival \<Rightarrow> task list" where
  "arrival_order MCT = [MetricsTask, CommitsTask, TracesTask]"
| "arrival_order MTC = [MetricsTask, TracesTask, CommitsTask]"
| "arrival_order CMT = [CommitsTask, MetricsTask, TracesTask]"
| "arrival_order CTM = [CommitsTask, TracesTask, MetricsTask]"
| "arrival_order TMC = [TracesTask, MetricsTask, CommitsTask]"
| "arrival_order TCM = [TracesTask, CommitsTask, MetricsTask]"

text \<open>One iteration of the collecting loop, on the received message \<open>r\<close>.\<close>

definition collect_step :: "result \<Rightarrow> AnalysisContext \<times> error option \<Rightarrow> AnalysisContext \<times> error option" where
  "collect_step r s =
     (let (ctxResult, aggregatedErr) = s;
          aggregatedErr = (case r_err r of Some e \<Rightarrow> Some e | None \<Rightarrow> aggregatedErr);
          ctxResult = (if length (r_commits r) > 0 then ctxResult\<lparr>RecentCommits := r_commits r\<rparr> else ctxResult);
          ctxResult = (if LatencyP99 (r_metrics r) > 0 \<or> ErrorRate (r_metrics r) > 0
                       then ctxResult\<lparr>Metrics := r_metrics r\<rparr> else ctxResult);
          ctxResult = (if TraceCount (r_traces r) > 0 then ctxResult\<lparr>Traces := r_traces r\<rparr> else ctxResult)
      in (ctxResult, aggregatedErr))"

fun collect :: "result list \<Rightarrow> AnalysisContext \<times> error option \<Rightarrow> AnalysisContext \<times> error option" where
  "collect [] s = s"
| "collect (r # rs) s = collect rs (collect_step r s)"

text \<open>
  \<open>PrepareContext\<close>: the windows are computed from the alert time, the three fetches
  run, and their messages are merged in the order of arrival. The context pointer
  returned is never nil.
\<close>

definition task_result :: "GoLib \<Rightarrow> Orchestrator \<Rightarrow> string \<Rightarrow> Time \<Rightarrow> Time \<Rightarrow> Time \<Rightarrow> task \<Rightarrow> result" where
  "task_result L o' serviceName metricsStart metricsEnd commitsSince t =
     (case t of
        MetricsTask \<Rightarrow>
          (let (metrics, err) = fetchMetrics o' serviceName metricsStart metricsEnd
           in result_zero\<lparr>r_metrics := metrics, r_err := err\<rparr>)
      | CommitsTask \<Rightarrow>
          (let (commits, err) = fetchCommits L o' serviceName commitsSince
           in result_zero\<lparr>r_commits := commits, r_err := err\<rparr>)
      | TracesTask \<Rightarrow>
          (let (traces, err) = fetchTraces o' serviceName metricsStart metricsEnd
           in result_zero\<lparr>r_traces := traces, r_err := err\<rparr>))"

definition PrepareContext :: "GoLib \<Rightarrow> Orchestrator \<Rightarrow> arrival \<Rightarrow> string \<Rightarrow> Time \<Rightarrow> AnalysisContext option \<times> error option" where
  "PrepareContext L o' arr serviceName alertTime =
     (let metricsWindow = GetMetricsWindowDuration L (cfg o');
          commitsLookback = GetCommitsLookbackDuration L (cfg o');
          metricsStart = Time_Add alertTime (- metricsWindow);
          metricsEnd = alertTime;
          commitsSince = Time_Add alertTime (- commitsLookback);
          received = map (task_result L o' serviceName metricsStart metricsEnd commitsSince) (arrival_order arr);
          ctxResult = \<lparr>ServiceName = serviceName, Alert = AlertInfo_zero, Metrics = MetricsSummary_zero,
                       RecentCommits = [], ErrorLogs = [], Traces = TraceContext_zero,
                       TimeWindow = \<lparr>Start = metricsStart, End = metricsEnd,
                                     Duration = Duration_String L metricsWindow\<rparr>\<rparr>;
          (ctxResult, aggregatedErr) = collect received (ctxResult, None)
      in (Some ctxResult, aggregatedErr))"

section \<open>Records of the analyzer, the composer and the Slack sender\<close>

record AnalysisResult =
  AR_ID :: string
  AR_ServiceName :: string
  AR_AlertName :: string
  AR_Severity :: string
  AR_Summary :: string
  AR_RootCause :: string
  AR_Confidence :: string
  AR_NextSteps :: "string list"
  AR_Metrics :: MetricsSummary
  AR_Commits :: "CommitInfo list"
  AR_AnalyzedAt :: Time

record Postmortem =
  PM_ID :: string
  PM_IncidentName :: string
  PM_Date :: Time
  PM_Duration :: Duration
  PM_RootCause :: string
  PM_Impact :: string
  PM_DetectionMethod :: string
  PM_ActionItems :: "string list"
  PM_RemediationRules :: "Suggestion list"
  PM_Markdown :: string

text \<open>The \<open>Accessory\<close> field of a block is never set by the code below and is left out.\<close>

record SlackText =
  ST_Type :: string
  ST_Text :: string

record SlackField =
  SF_Type :: string
  SF_Text :: string

record SlackBlock =
  SB_Type :: string
  SB_Text :: "SlackText option"
  SB_Fields :: "SlackField list"

section \<open>Analysis engine (package analyzer)\<close>

record AlertItem =
  AI_Status :: string
  AI_Labels :: "(string \<rightharpoonup> string) option"
  AI_Annotations :: "(string \<rightharpoonup> string) option"
  AI_StartsAt :: Time
  AI_EndsAt :: Time
  AI_GeneratorURL :: string
  AI_Fingerprint :: string

text \<open>Indexing a map that may be nil; \<open>GetLabel\<close> and \<open>GetAnnotation\<close> test for nil first.\<close>

definition nilmap_index :: "(string \<rightharpoonup> string) option \<Rightarrow> string \<Rightarrow> string" where
  "nilmap_index m k = (case m of None \<Rightarrow> [] | Some m' \<Rightarrow> map_index m' k)"

definition GetLabel :: "AlertItem \<Rightarrow> string \<Rightarrow> string" where
  "GetLabel a key = (if AI_Labels a = None then [] else nilmap_index (AI_Labels a) key)"

definition GetAnnotation :: "AlertItem \<Rightarrow> string \<Rightarrow> string" where
  "GetAnnotation a key = (if AI_Annotations a = None then [] else nilmap_index (AI_Annotations a) key)"

definition dq :: string where
  "dq = [CHR 0x22]"

text \<open>The closing part shared by both prompt templates.\<close>

definition response_instructions :: string where
  "response_instructions =
     ''Based on this data, provide:\<newline>'' @
     ''1. Most likely root cause (2-3 sentences)\<newline>'' @
     ''2. Confidence level (high/medium/low)\<newline>'' @
     ''3. Suggested next steps (3 bullet points)\<newline>'' @
     ''\<newline>'' @
     ''Respond in JSON format:\<newline>'' @
     ''{\<newline>'' @
     ''  '' @ dq @ ''root_cause'' @ dq @ '': '' @ dq @ ''...'' @ dq @ '',\<newline>'' @
     ''  '' @ dq @ ''confidence'' @ dq @ '': '' @ dq @ ''...'' @ dq @ '',\<newline>'' @
     ''  '' @ dq @ ''next_steps'' @ dq @ '': ['' @ dq @ ''...'' @ dq @ '', '' @ dq @ ''...'' @ dq @ '', ''
          @ dq @ ''...'' @ dq @ '']\<newline>'' @
     ''}\<newline>''"

definition buildPrompt :: "GoLib \<Rightarrow> AlertItem \<Rightarrow> string" where
  "buildPrompt L alert =
     ''\<newline>'' @
     ''You are an SRE analyzing an incident. Given the following alert data, identify the most likely root cause.\<newline>'' @
     ''\<newline>'' @
     ''ALERT:\<newline>'' @
     ''- Service: '' @ GetLabel alert ''service_name'' @ ''\<newline>'' @
     ''- Alert Name: '' @ nilmap_index (AI_Labels alert) ''alertname'' @ ''\<newline>'' @
     ''- Severity: '' @ nilmap_index (AI_Labels alert) ''severity'' @ ''\<newline>'' @
     ''- Started: '' @ Format_RFC3339 L (AI_StartsAt alert) @ ''\<newline>'' @
     ''- Summary: '' @ GetAnnotation alert ''summary'' @ ''\<newline>'' @
     ''\<newline>'' @
     response_instructions"

text \<open>\<open>truncate\<close>: byte length and byte slice.\<close>

definition truncate :: "string \<Rightarrow> nat \<Rightarrow> string" where
  "truncate s maxLen = (if length s \<le> maxLen then s else take maxLen s @ ''...'')"

text \<open>
  The loop of \<open>formatCommits\<close>, at index \<open>i\<close> with the text built so far: it stops at
  index 10, and \<open>c.SHA[:7]\<close> panics on a SHA shorter than 7 bytes.
\<close>

fun formatCommits_loop :: "nat \<Rightarrow> CommitInfo list \<Rightarrow> string \<Rightarrow> panic + string" where
  "formatCommits_loop i [] result = Inr result"
| "formatCommits_loop i (c # cs) result =
     (if i \<ge> 10 then Inr result
      else case slice_to (SHA c) 7 of
             Inl p \<Rightarrow> Inl p
           | Inr sha7 \<Rightarrow>
               formatCommits_loop (i + 1) cs
                 (result @ ''- '' @ sha7 @ '': '' @ truncate (Message c) 50 @ '' (by '' @ Author c @ '')\<newline>''))"

definition formatCommits :: "CommitInfo list \<Rightarrow> panic + string" where
  "formatCommits commits =
     (if length commits = 0 then Inr ''No recent commits found.''
      else formatCommits_loop 0 commits [])"

fun formatSpans_loop :: "GoLib \<Rightarrow> nat \<Rightarrow> Span list \<Rightarrow> string \<Rightarrow> string" where
  "formatSpans_loop L i [] result = result"
| "formatSpans_loop L i (s # ss) result =
     (if i \<ge> 10 then result
      else formatSpans_loop L (i + 1) ss
             (result @ ''- Service: '' @ SpanServiceName s @ ''\<newline>  Operation: '' @ OperationName s @
              ''\<newline>  Duration: '' @ fmt_d L (DurationMs s) @ ''ms\<newline>  Status: '' @ Status s @ ''\<newline>''))"

definition formatSpans :: "GoLib \<Rightarrow> Span list \<Rightarrow> string" where
  "formatSpans L spans = (if length spans = 0 then [] else formatSpans_loop L 0 spans [])"

text \<open>
  \<open>buildContextPrompt\<close>: the arguments of \<open>Sprintf\<close> are evaluated first, so a panic in
  \<open>formatCommits\<close> leaves no prompt.
\<close>

definition buildContextPrompt :: "GoLib \<Rightarrow> AnalysisContext \<Rightarrow> panic + string" where
  "buildContextPrompt L ctx =
     (case formatCommits (RecentCommits ctx) of
        Inl p \<Rightarrow> Inl p
      | Inr commitsText \<Rightarrow> Inr (
          ''\<newline>'' @
          ''You are an SRE analyzing an incident. Given the following data, identify the most likely root cause.\<newline>'' @
          ''\<newline>'' @
          ''ALERT:\<newline>'' @
          ''- Service: '' @ ServiceName ctx @ ''\<newline>'' @
          ''- Alert Name: '' @ Name (Alert ctx) @ ''\<newline>'' @
          ''- Severity: '' @ Severity (Alert ctx) @ ''\<newline>'' @
          ''- Started: '' @ Format_RFC3339 L (StartedAt (Alert ctx)) @ ''\<newline>'' @
          ''- Summary: '' @ Summary (Alert ctx) @ ''\<newline>'' @
          ''\<newline>'' @
          ''METRICS:\<newline>'' @
          ''- Latency P99: '' @ fmt_2f L (LatencyP99 (Metrics ctx)) @ ''ms\<newline>'' @
          ''- Error Rate: '' @ fmt_2f L (ErrorRate (Metrics ctx) * 100) @ ''%\<newline>'' @
          ''- Requests/sec: '' @ fmt_2f L (RPS (Metrics ctx)) @ ''\<newline>'' @
          ''\<newline>'' @
          ''BASELINE:\<newline>'' @
          ''- Latency: '' @ fmt_2f L (BaselineLatency (Metrics ctx)) @ ''ms\<newline>'' @
          ''- Error Rate: '' @ fmt_2f L (BaselineErrorRate (Metrics ctx) * 100) @ ''%\<newline>'' @
          ''\<newline>'' @
          ''DISTRIBUTED TRACES:\<newline>'' @
          ''- P99 Latency: '' @ fmt_2f L (P99Latency (Traces ctx)) @ ''ms\<newline>'' @
          ''- Slow Spans (>500ms): '' @ fmt_d L (int (length (SlowSpans (Traces ctx)))) @ ''\<newline>'' @
          ''- Error Spans: '' @ fmt_d L (int (length (ErrorSpans (Traces ctx)))) @ ''\<newline>'' @
          ''\<newline>'' @
          formatSpans L (SlowSpans (Traces ctx)) @ ''\<newline>'' @
          ''\<newline>'' @
          ''RECENT COMMITS ('' @ fmt_d L (int (length (RecentCommits ctx))) @ '' commits):\<newline>'' @
          commitsText @ ''\<newline>'' @
          ''\<newline>'' @
          response_instructions))"

text \<open>
  The backend capability \<open>Provider.Analyze(ctx, prompt)\<close>: the outcome of the call on a
  prompt. \<open>uuid\<close> and \<open>now\<close> are the values \<open>uuid.New().String()\<close> and \<open>time.Now()\<close>
  yield in this call.
\<close>

type_synonym Provider = "string \<Rightarrow> error + string"

text \<open>\<open>Analyze\<close>: the rapid analysis of one alert; metrics and commits stay zero values.\<close>

definition Analyze ::
  "GoLib \<Rightarrow> Provider \<Rightarrow> string \<Rightarrow> Time \<Rightarrow> AlertItem \<Rightarrow> AnalysisResult option \<times> error option" where
  "Analyze L provider uuid now alert =
     (let prompt = buildPrompt L alert
      in case provider prompt of
           Inl err \<Rightarrow> (None, Some (Wrapped ''LLM analysis failed'' err))
         | Inr response \<Rightarrow>
             (Some \<lparr>AR_ID = uuid, AR_ServiceName = GetLabel alert ''service_name'',
                     AR_AlertName = nilmap_index (AI_Labels alert) ''alertname'',
                     AR_Severity = nilmap_index (AI_Labels alert) ''severity'',
                     AR_Summary = GetAnnotation alert ''summary'', AR_RootCause = response,
                     AR_Confidence = ''medium'', AR_NextSteps = [],
                     AR_Metrics = MetricsSummary_zero, AR_Commits = [],
                     AR_AnalyzedAt = now\<rparr>, None))"

definition AnalyzeWithContext ::
  "GoLib \<Rightarrow> Provider \<Rightarrow> string \<Rightarrow> Time \<Rightarrow> AnalysisContext \<Rightarrow> panic + (AnalysisResult option \<times> error option)" where
  "AnalyzeWithContext L provider uuid now ctxData =
     (case buildContextPrompt L ctxData of
        Inl p \<Rightarrow> Inl p
      | Inr prompt \<Rightarrow>
          (case provider prompt of
             Inl err \<Rightarrow> Inr (None, Some (Wrapped ''LLM analysis failed'' err))
           | Inr response \<Rightarrow>
               Inr (Some \<lparr>AR_ID = uuid, AR_ServiceName = ServiceName ctxData,
                          AR_AlertName = Name (Alert ctxData), AR_Severity = Severity (Alert ctxData),
                          AR_Summary = Summary (Alert ctxData), AR_RootCause = response,
                          AR_Confidence = ''medium'', AR_NextSteps = [],
                          AR_Metrics = Metrics ctxData, AR_Commits = RecentCommits ctxData,
                          AR_AnalyzedAt = now\<rparr>, None)))"

section \<open>Postmortem composer (package postmortem)\<close>

text \<open>
  The wall clock is read four times during one \<open>Generate\<close>: \<open>clock k\<close> is the \<open>k\<close>-th
  reading. \<open>time.Since(t)\<close> is a reading minus \<open>t\<close>.
\<close>

definition pm_buildPrompt :: "GoLib \<Rightarrow> (nat \<Rightarrow> Time) \<Rightarrow> AnalysisContext \<Rightarrow> string" where
  "pm_buildPrompt L clock ctx =
     ''\<newline>'' @
     ''You are an expert SRE writing a formal incident postmortem.\<newline>'' @
     ''An alert that was previously firing has now RESOLVED.\<newline>'' @
     ''\<newline>'' @
     ''INCIDENT DETAILS:\<newline>'' @
     ''- Service: '' @ ServiceName ctx @ ''\<newline>'' @
     ''- Alert: '' @ Name (Alert ctx) @ ''\<newline>'' @
     ''- Started: '' @ Format_RFC3339 L (StartedAt (Alert ctx)) @ ''\<newline>'' @
     ''- Resolved: '' @ Format_RFC3339 L (clock 0) @ ''\<newline>'' @
     ''- Total Duration: '' @ Duration_String L (clock 1 - StartedAt (Alert ctx)) @ ''\<newline>'' @
     ''\<newline>'' @
     ''Please write a structured postmortem with the following sections in Markdown:\<newline>'' @
     ''## 1. Summary\<newline>'' @
     ''## 2. Impact\<newline>'' @
     ''## 3. Root Cause Analysis\<newline>'' @
     ''## 4. Resolution and Recovery\<newline>'' @
     ''## 5. What went well & What went wrong\<newline>'' @
     ''## 6. Action Items (LLM Suggested)\<newline>'' @
     ''\<newline>'' @
     ''Use this alert context to inform your writeup:\<newline>'' @
     ''- Alert Summary: '' @ Summary (Alert ctx) @ ''\<newline>'' @
     ''- Commits found during window: '' @ fmt_d L (int (length (RecentCommits ctx))) @ ''\<newline>''"

text \<open>The text one iteration of the rule loop of \<open>assembleMarkdown\<close> appends.\<close>

definition rule_markdown :: "Suggestion \<Rightarrow> string" where
  "rule_markdown rule =
     ''### '' @ Title rule @ ''\<newline>'' @
     Description rule @ ''\<newline>\<newline>'' @
     ''```bash\<newline>'' @ Action rule @ ''\<newline>```\<newline>\<newline>''"

fun assembleMarkdown_loop :: "Suggestion list \<Rightarrow> string \<Rightarrow> string" where
  "assembleMarkdown_loop [] md = md"
| "assembleMarkdown_loop (rule # rules) md = assembleMarkdown_loop rules (md @ rule_markdown rule)"

definition assembleMarkdown :: "GoLib \<Rightarrow> Postmortem \<Rightarrow> string \<Rightarrow> string" where
  "assembleMarkdown L pm llmBody =
     (let md = ''# '' @ PM_IncidentName pm @ ''\<newline>'';
          md = md @ ''**Date:** '' @ Format_DateTime L (PM_Date pm) @ ''\<newline>'';
          md = md @ ''**Duration:** '' @ Duration_String L (PM_Duration pm) @ ''\<newline>\<newline>'';
          md = md @ llmBody @ ''\<newline>\<newline>'';
          md = md @ ''## Automated Rule-Based Suggestions\<newline>''
      in if length (PM_RemediationRules pm) = 0
         then md @ ''No automated rules matched this incident type.\<newline>''
         else assembleMarkdown_loop (PM_RemediationRules pm) md)"

text \<open>
  \<open>Generate\<close>: the backend is called first; on its error the pair of a nil pointer and
  the wrapped error is returned before any \<open>Postmortem\<close> value is built.
\<close>

definition Generate ::
  "GoLib \<Rightarrow> Provider \<Rightarrow> string \<Rightarrow> (nat \<Rightarrow> Time) \<Rightarrow> AnalysisContext \<Rightarrow> Postmortem option \<times> error option" where
  "Generate L provider uuid clock ac =
     (let prompt = pm_buildPrompt L clock ac
      in case provider prompt of
           Inl err \<Rightarrow> (None, Some (Wrapped ''postmortem generation failed'' err))
         | Inr llmResponse \<Rightarrow>
             (let ruleSuggestions = GetSuggestions (Alert ac);
                  pm = \<lparr>PM_ID = uuid,
                        PM_IncidentName = ''Incident: '' @ Name (Alert ac) @ '' on '' @ ServiceName ac,
                        PM_Date = clock 2,
                        PM_Duration = clock 3 - StartedAt (Alert ac),
                        PM_RootCause = [], PM_Impact = [], PM_DetectionMethod = [],
                        PM_ActionItems = [],
                        PM_RemediationRules = ruleSuggestions,
                        PM_Markdown = []\<rparr>;
                  pm = pm\<lparr>PM_Markdown := assembleMarkdown L pm llmResponse\<rparr>
              in (Some pm, None)))"

section \<open>Slack notification of a postmortem (package output)\<close>

definition rule_block :: "Suggestion \<Rightarrow> SlackBlock" where
  "rule_block rule =
     \<lparr>SB_Type = ''section'',
      SB_Text = Some \<lparr>ST_Type = ''mrkdwn'',
                      ST_Text = ''>*'' @ Title rule @ ''*\<newline>>'' @ Description rule @ ''\<newline>>`'' @ Action rule @ ''`''\<rparr>,
      SB_Fields = []\<rparr>"

text \<open>The rule loop of \<open>buildPostmortemMessage\<close>: it breaks at index 3.\<close>

fun slack_rules_loop :: "nat \<Rightarrow> Suggestion list \<Rightarrow> SlackBlock list \<Rightarrow> SlackBlock list" where
  "slack_rules_loop i [] blocks = blocks"
| "slack_rules_loop i (rule # rules) blocks =
     (if i \<ge> 3 then blocks else slack_rules_loop (i + 1) rules (blocks @ [rule_block rule]))"

definition buildPostmortemMessage :: "GoLib \<Rightarrow> Postmortem \<Rightarrow> SlackBlock list" where
  "buildPostmortemMessage L pm =
     (let blocks =
            [\<lparr>SB_Type = ''header'',
              SB_Text = Some \<lparr>ST_Type = ''plain_text'',
                              ST_Text = [CHR 0xE2, CHR 0x9C, CHR 0x85] @ '' Resolved: '' @ PM_IncidentName pm\<rparr>,
              SB_Fields = []\<rparr>,
             \<lparr>SB_Type = ''section'', SB_Text = None,
              SB_Fields = [\<lparr>SF_Type = ''mrkdwn'', SF_Text = ''*Duration:*\<newline>'' @ Duration_String L (PM_Duration pm)\<rparr>,
                           \<lparr>SF_Type = ''mrkdwn'', SF_Text = ''*Date:*\<newline>'' @ Format_RFC822 L (PM_Date pm)\<rparr>]\<rparr>,
             \<lparr>SB_Type = ''section'',
              SB_Text = Some \<lparr>ST_Type = ''mrkdwn'',
                              ST_Text = ''*HelixOps Automated Postmortem Generated*\<newline>The incident has been resolved and a detailed postmortem is available focusing on Timeline, Root Cause, and Impact.''\<rparr>,
              SB_Fields = []\<rparr>]
      in if length (PM_RemediationRules pm) > 0
         then slack_rules_loop 0 (PM_RemediationRules pm)
                (blocks @ [\<lparr>SB_Type = ''divider'', SB_Text = None, SB_Fields = []\<rparr>,
                           \<lparr>SB_Type = ''section'',
                            SB_Text = Some \<lparr>ST_Type = ''mrkdwn'', ST_Text = ''*Suggested Fixes (Rule Engine)*''\<rparr>,
                            SB_Fields = []\<rparr>])
         else blocks)"

section \<open>Recent-commits tool of the MCP server (package mcp)\<close>

datatype CallToolResult = ToolResultText string | ToolResultError string

text \<open>\<open>err.Error()\<close>: the message; a wrapped error prints its prefix, a colon and the cause.\<close>

fun Error_string :: "error \<Rightarrow> string" where
  "Error_string (Err m) = m"
| "Error_string (Wrapped m e) = m @ '': '' @ Error_string e"

fun recentCommits_loop :: "nat \<Rightarrow> CommitInfo list \<Rightarrow> string \<Rightarrow> panic + string" where
  "recentCommits_loop i [] report = Inr report"
| "recentCommits_loop i (c # cs) report =
     (if i \<ge> 5 then Inr report
      else case slice_to (SHA c) 7 of
             Inl p \<Rightarrow> Inl p
           | Inr sha7 \<Rightarrow>
               recentCommits_loop (i + 1) cs
                 (report @ ''- '' @ sha7 @ '': '' @ Message c @ '' ('' @ Author c @ '')\<newline>''))"

text \<open>
  \<open>HandleGetRecentCommits\<close> for the argument \<open>repo_name\<close>; \<open>now\<close> is the reading of
  \<open>time.Now()\<close> passed to \<open>PrepareContext\<close>.
\<close>

definition HandleGetRecentCommits ::
  "GoLib \<Rightarrow> Orchestrator \<Rightarrow> arrival \<Rightarrow> Time \<Rightarrow> string \<Rightarrow> panic + CallToolResult" where
  "HandleGetRecentCommits L o' arr now repoName =
     (case PrepareContext L o' arr repoName now of
        (_, Some err) \<Rightarrow> Inr (ToolResultError (Error_string err))
      | (None, None) \<Rightarrow> Inl NilPointerDereference
      | (Some ac, None) \<Rightarrow>
          (if length (RecentCommits ac) = 0
           then Inr (ToolResultText (''No recent commits found for '' @ repoName @ '' in the last 24h.''))
           else case recentCommits_loop 0 (RecentCommits ac) (''Recent Commits for '' @ repoName @ '':\<newline>'') of
                  Inl p \<Rightarrow> Inl p
                | Inr report \<Rightarrow> Inr (ToolResultText report)))"

section \<open>Fixtures for concrete evaluation\<close>

definition demo_lib :: GoLib where
  "demo_lib = \<lparr>fmt_d = (\<lambda>n. ''0''), fmt_2f = (\<lambda>x. ''0.00''),
     Format_RFC3339 = (\<lambda>t. ''2026-01-01T00:00:00Z''),
     Format_DateTime = (\<lambda>t. ''2026-01-01 00:00:00''),
     Format_RFC822 = (\<lambda>t. ''01 Jan 26 00:00 UTC''),
     Duration_String = (\<lambda>d. ''15m0s''),
     ParseDuration = (\<lambda>s. if s = ''15m'' then 15 * Minute else 0),
     Parse_RFC3339 = (\<lambda>s. 0)\<rparr>"

definition demo_cfg :: Config where
  "demo_cfg = \<lparr>Analysis_MetricsWindow = ''15m'', Analysis_CommitsLookback = [], GitHub_APIURL = []\<rparr>"

definition demo_commit :: Commit where
  "demo_commit = \<lparr>C_SHA = ''0123456789abcdef'', C_Message = ''fix cache eviction'',
     C_Author = \<lparr>CA_Name = ''dev'', CA_Email = ''dev@example.org'', CA_Date = ''2026-01-01T00:00:00Z''\<rparr>,
     C_URL = [], C_Committer = \<lparr>CA_Name = ''dev'', CA_Email = ''dev@example.org'', CA_Date = []\<rparr>\<rparr>"

text \<open>Prometheus answers: the latency query fails, the error rate is 0, the request rate is 7.\<close>

definition prom_rps_only :: PromClient where
  "prom_rps_only = \<lparr>QueryLatencyP99 = (\<lambda>s a b. Inl (Err ''query timed out'')),
     QueryErrorRate = (\<lambda>s a b. Inr 0), QueryRPS = (\<lambda>s a b. Inr 7)\<rparr>"

definition prom_ok :: PromClient where
  "prom_ok = \<lparr>QueryLatencyP99 = (\<lambda>s a b. Inr 250), QueryErrorRate = (\<lambda>s a b. Inr 0),
     QueryRPS = (\<lambda>s a b. Inr 7)\<rparr>"

definition github_ok :: GithubClient where
  "github_ok = \<lparr>FetchCommitsByRepo = (\<lambda>repo since. Inr [demo_commit])\<rparr>"

definition github_down :: GithubClient where
  "github_down = \<lparr>FetchCommitsByRepo = (\<lambda>repo since. Inl (Err ''github unreachable''))\<rparr>"

text \<open>All fetches succeed, tracing disabled, metrics carry only a request rate.\<close>

definition orch_rps_only :: Orchestrator where
  "orch_rps_only = \<lparr>promClient = prom_rps_only, githubClient = github_ok, tempoClient = None, cfg = demo_cfg\<rparr>"

text \<open>The commit fetch fails, tracing disabled, metrics carry only a request rate.\<close>

definition orch_commits_down_rps_only :: Orchestrator where
  "orch_commits_down_rps_only =
     \<lparr>promClient = prom_rps_only, githubClient = github_down, tempoClient = None, cfg = demo_cfg\<rparr>"

text \<open>The commit fetch fails, tracing disabled, metrics with a latency.\<close>

definition orch_commits_down :: Orchestrator where
  "orch_commits_down = \<lparr>promClient = prom_ok, githubClient = github_down, tempoClient = None, cfg = demo_cfg\<rparr>"

text \<open>Every Prometheus query succeeds: latency 0, error rate 0, request rate 7.\<close>

definition prom_idle :: PromClient where
  "prom_idle = \<lparr>QueryLatencyP99 = (\<lambda>s a b. Inr 0), QueryErrorRate = (\<lambda>s a b. Inr 0),
     QueryRPS = (\<lambda>s a b. Inr 7)\<rparr>"

text \<open>All fetches and all queries succeed, tracing disabled.\<close>

definition orch_idle :: Orchestrator where
  "orch_idle = \<lparr>promClient = prom_idle, githubClient = github_ok, tempoClient = None, cfg = demo_cfg\<rparr>"

section \<open>Derived notions for the orchestrator\<close>

text \<open>The message a task sends during \<open>PrepareContext\<close> for a service and an alert time.\<close>

definition sent :: "GoLib \<Rightarrow> Orchestrator \<Rightarrow> string \<Rightarrow> Time \<Rightarrow> task \<Rightarrow> result" where
  "sent L o' serviceName alertTime k =
     task_result L o' serviceName
       (Time_Add alertTime (- GetMetricsWindowDuration L (cfg o'))) alertTime
       (Time_Add alertTime (- GetCommitsLookbackDuration L (cfg o'))) k"

text \<open>
  The error the collecting loop ends with: the error of the commit or trace message
  that arrived last among those carrying one.
\<close>

definition last_error :: "arrival \<Rightarrow> error option \<Rightarrow> error option \<Rightarrow> error option" where
  "last_error arr ce te =
     (if arr \<in> {MCT, CMT, CTM}
      then (case te of Some e \<Rightarrow> Some e | None \<Rightarrow> ce)
      else (case ce of Some e \<Rightarrow> Some e | None \<Rightarrow> te))"

section \<open>Fixtures for the postmortem composer\<close>

definition provider_ok :: Provider where
  "provider_ok = (\<lambda>prompt. Inr ''## 1. Summary'')"

definition provider_down :: Provider where
  "provider_down = (\<lambda>prompt. Inl (Err ''backend unavailable''))"

definition demo_clock :: "nat \<Rightarrow> Time" where
  "demo_clock k = 1000 + int k"

text \<open>A context whose alert name matches three categories (four suggestions).\<close>

definition demo_ctx :: AnalysisContext where
  "demo_ctx = \<lparr>ServiceName = ''checkout'', Alert = AlertInfo_zero\<lparr>Name := ''Latency_CPU_OOM''\<rparr>,
     Metrics = MetricsSummary_zero, RecentCommits = [], ErrorLogs = [], Traces = TraceContext_zero,
     TimeWindow = \<lparr>Start = 0, End = 900, Duration = ''15m0s''\<rparr>\<rparr>"

section \<open>Derived notions and fixtures for the analysis engine\<close>

text \<open>The line \<open>formatCommits\<close> appends for one commit whose SHA has at least 7 bytes.\<close>

definition commit_line :: "CommitInfo \<Rightarrow> string" where
  "commit_line c = ''- '' @ take 7 (SHA c) @ '': '' @ truncate (Message c) 50 @ '' (by '' @ Author c @ '')\<newline>''"

definition demo_commit_info :: CommitInfo where
  "demo_commit_info = \<lparr>SHA = ''0123456789abcdef'', Message = ''fix cache eviction'', Author = ''dev'',
     Email = ''dev@example.org'', URL = [], Timestamp = 0, PRNumber = 0\<rparr>"

text \<open>A commit whose SHA has five bytes.\<close>

definition short_sha_commit :: Commit where
  "short_sha_commit = demo_commit\<lparr>C_SHA := ''abc12''\<rparr>"

definition orch_short_sha :: Orchestrator where
  "orch_short_sha = \<lparr>promClient = prom_ok,
     githubClient = \<lparr>FetchCommitsByRepo = (\<lambda>repo since. Inr [short_sha_commit])\<rparr>,
     tempoClient = None, cfg = demo_cfg\<rparr>"

definition demo_alert_item :: AlertItem where
  "demo_alert_item = \<lparr>AI_Status = ''firing'',
     AI_Labels = Some [''service_name'' \<mapsto> ''checkout'', ''alertname'' \<mapsto> ''HighLatencyAlert''],
     AI_Annotations = None, AI_StartsAt = 900, AI_EndsAt = 0, AI_GeneratorURL = [], AI_Fingerprint = []\<rparr>"

section \<open>Observing prompts; characters of a UTF-8 string\<close>

text \<open>A backend that answers with the prompt it was given, to observe the prompt of a run.\<close>

definition echo_provider :: Provider where
  "echo_provider = (\<lambda>prompt. Inr prompt)"

text \<open>
  With the echo backend the root cause of a run's result is the prompt the run sent.
\<close>

definition prompt_seen :: "AnalysisResult option \<times> error option \<Rightarrow> string option" where
  "prompt_seen r = map_option AR_RootCause (fst r)"

text \<open>
  Two alerts and two contexts that differ only in parts the prompt builders do not
  read: status, fingerprint, an extra label, an empty annotation map in place of nil;
  memory usage, error logs, the time window.
\<close>

definition demo_alert_item' :: AlertItem where
  "demo_alert_item' = demo_alert_item\<lparr>AI_Status := ''resolved'',
     AI_Labels := Some [''service_name'' \<mapsto> ''checkout'', ''alertname'' \<mapsto> ''HighLatencyAlert'',
                        ''team'' \<mapsto> ''payments''],
     AI_Annotations := Some Map.empty, AI_Fingerprint := ''f1''\<rparr>"

definition demo_ctx' :: AnalysisContext where
  "demo_ctx' = demo_ctx\<lparr>Metrics := MetricsSummary_zero\<lparr>MemoryUsage := 5\<rparr>,
     ErrorLogs := [\<lparr>LogTimestamp = 1, Level = ''error'', LogMessage = ''timeout'', Service = ''checkout''\<rparr>],
     TimeWindow := \<lparr>Start = 100, End = 1000, Duration = ''15m0s''\<rparr>\<rparr>"

text \<open>A library whose RFC 3339 rendering tells the instant 0 from every other instant.\<close>

definition stamp_lib :: GoLib where
  "stamp_lib = demo_lib\<lparr>Format_RFC3339 := (\<lambda>t. if t = 0 then ''1970-01-01T00:00:00Z'' else ''later'')\<rparr>"

text \<open>
  The spec counts commit messages in characters. A character of a UTF-8 string is a
  byte sequence that starts with a byte outside \<open>0x80\<close>..\<open>0xBF\<close> (those are continuation
  bytes), so the number of characters is the number of such bytes.
\<close>

definition is_continuation_byte :: "char \<Rightarrow> bool" where
  "is_continuation_byte b = (128 \<le> (of_char b :: nat) \<and> (of_char b :: nat) < 192)"

definition characters :: "string \<Rightarrow> nat" where
  "characters s = length (filter (\<lambda>b. \<not> is_continuation_byte b) s)"

text \<open>The two bytes of the letter e with acute accent (U+00E9), and a message of 60 of them.\<close>

definition e_acute :: string where
  "e_acute = [CHR 0xC3, CHR 0xA9]"

definition e_acute_message :: string where
  "e_acute_message = concat (replicate 60 e_acute)"

section \<open>Properties of the rule engine\<close>

lemma ToLower_HighLatencyAlert: "ToLower ''HighLatencyAlert'' = ''highlatencyalert''"
  by (simp add: ToLower_def lower_byte_def)

lemma ToLower_OOMKilled: "ToLower ''OOMKilled'' = ''oomkilled''"
  by (simp add: ToLower_def lower_byte_def)

lemma ToLower_UnknownXYZ: "ToLower ''UnknownXYZ'' = ''unknownxyz''"
  by (simp add: ToLower_def lower_byte_def)

lemma lower_byte_idem: "lower_byte (lower_byte c) = lower_byte c"
  by (simp add: lower_byte_def)

lemma ToLower_idem: "ToLower (ToLower s) = ToLower s"
  by (simp add: ToLower_def lower_byte_idem)

lemma GetSuggestions_unfold:
  "GetSuggestions alert =
     (if Contains (ToLower (Name alert)) ''highlatency'' \<or> Contains (ToLower (Name alert)) ''latency''
      then latency_suggestions alert else []) @
     (if Contains (ToLower (Name alert)) ''errorrate'' \<or> Contains (ToLower (Name alert)) ''high_error_rate''
      then error_rate_suggestions else []) @
     (if Contains (ToLower (Name alert)) ''cpu'' \<or> Contains (ToLower (Name alert)) ''throttling''
      then cpu_suggestions else []) @
     (if Contains (ToLower (Name alert)) ''memory'' \<or> Contains (ToLower (Name alert)) ''oom''
      then memory_suggestions else [])"
  by (simp add: GetSuggestions_def)

lemma latency_suggestions_Name [simp]:
  "latency_suggestions (a\<lparr>Name := n\<rparr>) = latency_suggestions a"
  by (simp add: latency_suggestions_def)

lemma latency_memory_disjoint: "set (latency_suggestions a) \<inter> set memory_suggestions = {}"
  by (simp add: latency_suggestions_def memory_suggestions_def)

text \<open>
  Claim C6. \<open>GetSuggestions\<close> on an alert named "HighLatencyAlert" returns the two
  latency suggestions and none of the memory category; on "OOMKilled" it returns only
  the memory suggestion; on "UnknownXYZ" it returns the empty list (the function has
  no error result). In general the result is the concatenation, in the fixed order
  latency, error rate, CPU/throttling, memory/OOM, of the suggestions of every category
  one of whose patterns occurs in the lower-cased alert name, so several categories may
  contribute at once; and two names with the same lower-casing give the same result.
\<close>

theorem GetSuggestions_categories:
  "GetSuggestions (a\<lparr>Name := ''HighLatencyAlert''\<rparr>) = latency_suggestions a \<and>
   set (GetSuggestions (a\<lparr>Name := ''HighLatencyAlert''\<rparr>)) \<inter> set memory_suggestions = {} \<and>
   GetSuggestions (a\<lparr>Name := ''OOMKilled''\<rparr>) = memory_suggestions \<and>
   GetSuggestions (a\<lparr>Name := ''UnknownXYZ''\<rparr>) = [] \<and>
   GetSuggestions a =
     (if Contains (ToLower (Name a)) ''highlatency'' \<or> Contains (ToLower (Name a)) ''latency''
      then latency_suggestions a else []) @
     (if Contains (ToLower (Name a)) ''errorrate'' \<or> Contains (ToLower (Name a)) ''high_error_rate''
      then error_rate_suggestions else []) @
     (if Contains (ToLower (Name a)) ''cpu'' \<or> Contains (ToLower (Name a)) ''throttling''
      then cpu_suggestions else []) @
     (if Contains (ToLower (Name a)) ''memory'' \<or> Contains (ToLower (Name a)) ''oom''
      then memory_suggestions else []) \<and>
   GetSuggestions (a\<lparr>Name := ''Latency_CPU_OOM''\<rparr>) =
     latency_suggestions a @ cpu_suggestions @ memory_suggestions \<and>
   (ToLower n = ToLower n' \<longrightarrow>
      GetSuggestions (a\<lparr>Name := n\<rparr>) = GetSuggestions (a\<lparr>Name := n'\<rparr>))"
proof -
  have hl: "GetSuggestions (a\<lparr>Name := ''HighLatencyAlert''\<rparr>) = latency_suggestions a"
    by (simp add: GetSuggestions_unfold ToLower_HighLatencyAlert)
  have oom: "GetSuggestions (a\<lparr>Name := ''OOMKilled''\<rparr>) = memory_suggestions"
    by (simp add: GetSuggestions_unfold ToLower_OOMKilled)
  have unk: "GetSuggestions (a\<lparr>Name := ''UnknownXYZ''\<rparr>) = []"
    by (simp add: GetSuggestions_unfold ToLower_UnknownXYZ)
  have low: "ToLower ''Latency_CPU_OOM'' = ''latency_cpu_oom''"
    by (simp add: ToLower_def lower_byte_def)
  have multi: "GetSuggestions (a\<lparr>Name := ''Latency_CPU_OOM''\<rparr>) =
      latency_suggestions a @ cpu_suggestions @ memory_suggestions"
    by (simp add: GetSuggestions_unfold low)
  have ci: "ToLower n = ToLower n' \<longrightarrow>
      GetSuggestions (a\<lparr>Name := n\<rparr>) = GetSuggestions (a\<lparr>Name := n'\<rparr>)"
    by (simp add: GetSuggestions_unfold)
  show ?thesis
    using hl oom unk multi ci latency_memory_disjoint [of a] GetSuggestions_unfold [of a]
    by simp
qed

theorem GetSuggestions_categories_witness:
  "ToLower ''OOMKilled'' = ToLower ''oomkilled'' \<and>
   GetSuggestions (AlertInfo_zero\<lparr>Name := ''OOMKilled''\<rparr>) =
     GetSuggestions (AlertInfo_zero\<lparr>Name := ''oomkilled''\<rparr>) \<and>
   GetSuggestions (AlertInfo_zero\<lparr>Name := ''OOMKilled''\<rparr>) = memory_suggestions \<and>
   GetSuggestions (AlertInfo_zero\<lparr>Name := ''HighLatencyAlert''\<rparr>) = latency_suggestions AlertInfo_zero"
proof -
  have h: "ToLower ''OOMKilled'' = ToLower ''oomkilled''"
    by (simp add: ToLower_def lower_byte_def)
  note t = GetSuggestions_categories [of AlertInfo_zero "''OOMKilled''" "''oomkilled''"]
  from t h have eq: "GetSuggestions (AlertInfo_zero\<lparr>Name := ''OOMKilled''\<rparr>) =
     GetSuggestions (AlertInfo_zero\<lparr>Name := ''oomkilled''\<rparr>)"
    by blast
  from t have oom: "GetSuggestions (AlertInfo_zero\<lparr>Name := ''OOMKilled''\<rparr>) = memory_suggestions"
    by blast
  from t have hl: "GetSuggestions (AlertInfo_zero\<lparr>Name := ''HighLatencyAlert''\<rparr>) =
     latency_suggestions AlertInfo_zero"
    by blast
  from h eq oom hl show ?thesis
    by blast
qed

section \<open>Properties of the context orchestrator\<close>

lemma fetchMetrics_err: "snd (fetchMetrics o' sn s e) = None"
  by (simp add: fetchMetrics_def Let_def)

lemma zero_simps:
  "LatencyP99 MetricsSummary_zero = 0" "ErrorRate MetricsSummary_zero = 0"
  "TraceCount TraceContext_zero = 0"
  by (simp_all add: MetricsSummary_zero_def TraceContext_zero_def)

lemma collect_step_metrics:
  "collect_step (result_zero\<lparr>r_metrics := m, r_err := None\<rparr>) (c, e) =
     ((if LatencyP99 m > 0 \<or> ErrorRate m > 0 then c\<lparr>Metrics := m\<rparr> else c), e)"
  by (simp add: collect_step_def result_zero_def zero_simps)

lemma collect_step_commits:
  "collect_step (result_zero\<lparr>r_commits := cs, r_err := ce\<rparr>) (c, e) =
     ((if cs \<noteq> [] then c\<lparr>RecentCommits := cs\<rparr> else c), (case ce of Some x \<Rightarrow> Some x | None \<Rightarrow> e))"
  by (simp add: collect_step_def result_zero_def zero_simps)

lemma collect_step_traces:
  "collect_step (result_zero\<lparr>r_traces := t, r_err := te\<rparr>) (c, e) =
     ((if TraceCount t > 0 then c\<lparr>Traces := t\<rparr> else c), (case te of Some x \<Rightarrow> Some x | None \<Rightarrow> e))"
  by (simp add: collect_step_def result_zero_def zero_simps)

lemma task_result_simps:
  "task_result L o' sn ms me cs MetricsTask = result_zero\<lparr>r_metrics := fst (fetchMetrics o' sn ms me), r_err := None\<rparr>"
  "task_result L o' sn ms me cs CommitsTask = result_zero\<lparr>r_commits := fst (fetchCommits L o' sn cs), r_err := snd (fetchCommits L o' sn cs)\<rparr>"
  "task_result L o' sn ms me cs TracesTask = result_zero\<lparr>r_traces := fst (fetchTraces o' sn ms me), r_err := snd (fetchTraces o' sn ms me)\<rparr>"
  using fetchMetrics_err [of o' sn ms me]
  by (auto simp add: task_result_def split: prod.splits)

lemma result_zero_simps:
  "r_metrics result_zero = MetricsSummary_zero" "r_commits result_zero = []"
  "r_traces result_zero = TraceContext_zero" "r_err result_zero = None"
  by (simp_all add: result_zero_def)

lemma sent_fields:
  "r_err (sent L o' sn t MetricsTask) = None"
  "r_commits (sent L o' sn t MetricsTask) = []"
  "r_traces (sent L o' sn t MetricsTask) = TraceContext_zero"
  "r_metrics (sent L o' sn t CommitsTask) = MetricsSummary_zero"
  "r_traces (sent L o' sn t CommitsTask) = TraceContext_zero"
  "r_metrics (sent L o' sn t TracesTask) = MetricsSummary_zero"
  "r_commits (sent L o' sn t TracesTask) = []"
  by (simp_all add: sent_def task_result_simps result_zero_simps)

lemma PrepareContext_result:
  "PrepareContext L o' arr sn t =
     (Some \<lparr>ServiceName = sn, Alert = AlertInfo_zero,
            Metrics = (if LatencyP99 (r_metrics (sent L o' sn t MetricsTask)) > 0 \<or>
                          ErrorRate (r_metrics (sent L o' sn t MetricsTask)) > 0
                       then r_metrics (sent L o' sn t MetricsTask) else MetricsSummary_zero),
            RecentCommits = r_commits (sent L o' sn t CommitsTask), ErrorLogs = [],
            Traces = (if TraceCount (r_traces (sent L o' sn t TracesTask)) > 0
                      then r_traces (sent L o' sn t TracesTask) else TraceContext_zero),
            TimeWindow = \<lparr>Start = Time_Add t (- GetMetricsWindowDuration L (cfg o')), End = t,
                          Duration = Duration_String L (GetMetricsWindowDuration L (cfg o'))\<rparr>\<rparr>,
      last_error arr (r_err (sent L o' sn t CommitsTask)) (r_err (sent L o' sn t TracesTask)))"
  by (cases arr)
     (simp_all add: PrepareContext_def sent_def Let_def task_result_simps collect_step_metrics
        collect_step_commits collect_step_traces last_error_def result_zero_simps split: option.splits)

text \<open>
  Claim C3. For every service name and alert time, whatever the clients answer and in
  whatever order the three messages arrive, the context returned by \<open>PrepareContext\<close>
  has \<open>TimeWindow.End\<close> equal to the alert time and \<open>TimeWindow.Start\<close> equal to the
  alert time minus the configured metrics window. No clock reading enters the function.
\<close>

theorem PrepareContext_TimeWindow:
  "\<exists>ctx. fst (PrepareContext L o' arr serviceName alertTime) = Some ctx \<and>
         End (TimeWindow ctx) = alertTime \<and>
         Start (TimeWindow ctx) = alertTime - GetMetricsWindowDuration L (cfg o')"
  by (simp add: PrepareContext_result Time_Add_def)

lemma fetchTraces_disabled:
  "tempoClient o' = None \<Longrightarrow> fetchTraces o' sn s e = (TraceContext_zero, None)"
  by (simp add: fetchTraces_def)

text \<open>
  Claim C9. With no trace client configured, the trace fetch yields the zero-valued
  \<open>TraceContext\<close> and no error; the \<open>Traces\<close> field of the returned context is the zero
  value, and the returned error is the commit fetch's error (nil when that fetch
  succeeded), for every arrival order.
\<close>

theorem PrepareContext_tracing_disabled:
  assumes "tempoClient o' = None"
  shows "fetchTraces o' serviceName start end' = (TraceContext_zero, None) \<and>
         r_err (sent L o' serviceName alertTime TracesTask) = None \<and>
         (\<exists>ctx. PrepareContext L o' arr serviceName alertTime =
                  (Some ctx, r_err (sent L o' serviceName alertTime CommitsTask)) \<and>
                Traces ctx = TraceContext_zero)"
proof -
  have tr: "sent L o' serviceName alertTime TracesTask = result_zero"
    using assms by (simp add: sent_def task_result_simps fetchTraces_disabled result_zero_def)
  have le: "last_error arr ce None = ce" for ce
    by (cases ce) (simp_all add: last_error_def)
  show ?thesis
    using assms by (simp add: fetchTraces_disabled PrepareContext_result tr result_zero_simps zero_simps le)
qed

theorem PrepareContext_tracing_disabled_witness:
  "tempoClient orch_commits_down = None \<and>
   fetchTraces orch_commits_down ''checkout'' 0 900 = (TraceContext_zero, None) \<and>
   (\<exists>ctx. PrepareContext demo_lib orch_commits_down TCM ''checkout'' 900 =
            (Some ctx, Some (Err ''github unreachable'')) \<and> Traces ctx = TraceContext_zero)"
proof -
  have h: "tempoClient orch_commits_down = None"
    by (simp add: orch_commits_down_def)
  have e: "r_err (sent demo_lib orch_commits_down ''checkout'' 900 CommitsTask) = Some (Err ''github unreachable'')"
    by (simp add: sent_def task_result_simps fetchCommits_def orch_commits_down_def github_down_def)
  from PrepareContext_tracing_disabled [OF h, of "''checkout''" 0 900 demo_lib 900 TCM] h e
  show ?thesis by simp
qed

lemma sent_rps_only_metrics:
  "r_metrics (sent L (o'\<lparr>promClient := prom_rps_only\<rparr>) sn t MetricsTask) = MetricsSummary_zero\<lparr>RPS := 7\<rparr>"
  by (simp add: sent_def task_result_simps fetchMetrics_def prom_rps_only_def MetricsSummary_zero_def)

lemma last_error_cases:
  "last_error arr None None = None"
  "last_error arr (Some e) None = Some e"
  "last_error arr None (Some e) = Some e"
  "last_error arr (Some e) (Some e') = Some e \<or> last_error arr (Some e) (Some e') = Some e'"
  by (simp_all add: last_error_def)

text \<open>
  With exactly one failing fetch task, \<open>PrepareContext\<close> returns a non-nil context and
  a non-nil error, which is the failing task's error.
\<close>

lemma PrepareContext_one_failure_error:
  assumes "length (filter (\<lambda>k. r_err (sent L o' serviceName alertTime k) \<noteq> None)
             [MetricsTask, CommitsTask, TracesTask]) = 1"
  shows "\<exists>ctx e. PrepareContext L o' arr serviceName alertTime = (Some ctx, Some e) \<and>
           Some e \<in> {r_err (sent L o' serviceName alertTime CommitsTask),
                      r_err (sent L o' serviceName alertTime TracesTask)}"
proof -
  let ?ce = "r_err (sent L o' serviceName alertTime CommitsTask)"
  let ?te = "r_err (sent L o' serviceName alertTime TracesTask)"
  from assms have one: "(?ce = None) \<noteq> (?te = None)"
    by (auto simp add: sent_fields split: if_splits)
  then obtain e where e: "last_error arr ?ce ?te = Some e" "Some e \<in> {?ce, ?te}"
    by (cases ?ce; cases ?te) (auto simp add: last_error_cases)
  show ?thesis
    using e by (simp add: PrepareContext_result)
qed

text \<open>
  Claim C1 says that with exactly one failing fetch task the fields of the other tasks
  are populated. At this input the code does not do so: the commit fetch is the only
  task returning an error, the metrics task returns a summary with request rate 7
  (latency query failed, error rate 0), and for every arrival order the returned
  context's \<open>Metrics\<close> is the zero value, so the request rate the metrics task collected
  is lost. The non-nil error is returned as the claim says.
\<close>

theorem PrepareContext_one_failure_drops_request_rate:
  "r_err (sent demo_lib orch_commits_down_rps_only ''checkout'' 900 MetricsTask) = None \<and>
   r_err (sent demo_lib orch_commits_down_rps_only ''checkout'' 900 CommitsTask) = Some (Err ''github unreachable'') \<and>
   r_err (sent demo_lib orch_commits_down_rps_only ''checkout'' 900 TracesTask) = None \<and>
   RPS (r_metrics (sent demo_lib orch_commits_down_rps_only ''checkout'' 900 MetricsTask)) = 7 \<and>
   (\<forall>arr. snd (PrepareContext demo_lib orch_commits_down_rps_only arr ''checkout'' 900) =
            Some (Err ''github unreachable'') \<and>
          Metrics (the (fst (PrepareContext demo_lib orch_commits_down_rps_only arr ''checkout'' 900))) =
            MetricsSummary_zero \<and>
          RPS (Metrics (the (fst (PrepareContext demo_lib orch_commits_down_rps_only arr ''checkout'' 900)))) = 0)"
proof -
  have o: "orch_commits_down_rps_only = orch_commits_down_rps_only\<lparr>promClient := prom_rps_only\<rparr>"
    by (simp add: orch_commits_down_rps_only_def)
  have m: "r_metrics (sent demo_lib orch_commits_down_rps_only ''checkout'' 900 MetricsTask) =
        MetricsSummary_zero\<lparr>RPS := 7\<rparr>"
    using sent_rps_only_metrics [of demo_lib orch_commits_down_rps_only "''checkout''" 900] o by simp
  have c: "r_err (sent demo_lib orch_commits_down_rps_only ''checkout'' 900 CommitsTask) =
        Some (Err ''github unreachable'')"
    by (simp add: sent_def task_result_simps fetchCommits_def orch_commits_down_rps_only_def github_down_def)
  have tr: "r_err (sent demo_lib orch_commits_down_rps_only ''checkout'' 900 TracesTask) = None"
    by (simp add: sent_def task_result_simps fetchTraces_def orch_commits_down_rps_only_def)
  show ?thesis
    by (simp add: sent_fields m c tr PrepareContext_result MetricsSummary_zero_def last_error_cases)
qed

text \<open>
  Claim C4 says that every non-error result of a fetch task is stored unchanged in its
  field. At this input the code does not do so: all three tasks and all three
  Prometheus queries succeed, the metrics summary has request rate 7 with latency 0
  and error rate 0, and for every arrival order \<open>Metrics\<close> of the returned context is
  the zero value and differs from that summary. The commit list is stored unchanged.
\<close>

theorem PrepareContext_merge_drops_request_rate:
  "r_err (sent demo_lib orch_idle ''checkout'' 900 MetricsTask) = None \<and>
   r_err (sent demo_lib orch_idle ''checkout'' 900 CommitsTask) = None \<and>
   r_err (sent demo_lib orch_idle ''checkout'' 900 TracesTask) = None \<and>
   r_metrics (sent demo_lib orch_idle ''checkout'' 900 MetricsTask) = MetricsSummary_zero\<lparr>RPS := 7\<rparr> \<and>
   (\<forall>arr. PrepareContext demo_lib orch_idle arr ''checkout'' 900 =
            (Some (the (fst (PrepareContext demo_lib orch_idle arr ''checkout'' 900))), None) \<and>
          Metrics (the (fst (PrepareContext demo_lib orch_idle arr ''checkout'' 900))) = MetricsSummary_zero \<and>
          Metrics (the (fst (PrepareContext demo_lib orch_idle arr ''checkout'' 900))) \<noteq>
            r_metrics (sent demo_lib orch_idle ''checkout'' 900 MetricsTask) \<and>
          RecentCommits (the (fst (PrepareContext demo_lib orch_idle arr ''checkout'' 900))) =
            r_commits (sent demo_lib orch_idle ''checkout'' 900 CommitsTask))"
proof -
  have m: "r_metrics (sent demo_lib orch_idle ''checkout'' 900 MetricsTask) = MetricsSummary_zero\<lparr>RPS := 7\<rparr>"
    by (simp add: sent_def task_result_simps fetchMetrics_def orch_idle_def prom_idle_def
          MetricsSummary_zero_def)
  have c: "r_err (sent demo_lib orch_idle ''checkout'' 900 CommitsTask) = None"
    by (simp add: sent_def task_result_simps fetchCommits_def orch_idle_def github_ok_def)
  have tr: "r_err (sent demo_lib orch_idle ''checkout'' 900 TracesTask) = None"
    by (simp add: sent_def task_result_simps fetchTraces_def orch_idle_def)
  show ?thesis
    by (simp add: sent_fields m c tr PrepareContext_result MetricsSummary_zero_def last_error_cases)
qed

section \<open>Properties of the postmortem composer\<close>

lemma assembleMarkdown_loop_concat:
  "assembleMarkdown_loop rules md = md @ concat (map rule_markdown rules)"
  by (induction rules arbitrary: md) simp_all

lemma assembleMarkdown_result:
  "assembleMarkdown L pm llmBody =
     ''# '' @ PM_IncidentName pm @ ''\<newline>'' @
     ''**Date:** '' @ Format_DateTime L (PM_Date pm) @ ''\<newline>'' @
     ''**Duration:** '' @ Duration_String L (PM_Duration pm) @ ''\<newline>\<newline>'' @
     llmBody @ ''\<newline>\<newline>'' @
     ''## Automated Rule-Based Suggestions\<newline>'' @
     (if PM_RemediationRules pm = [] then ''No automated rules matched this incident type.\<newline>''
      else concat (map rule_markdown (PM_RemediationRules pm)))"
  by (simp add: assembleMarkdown_def Let_def assembleMarkdown_loop_concat)

lemma slack_rules_loop_take:
  "slack_rules_loop i rules blocks = blocks @ map rule_block (take (3 - i) rules)"
proof (induction rules arbitrary: i blocks)
  case Nil
  then show ?case by simp
next
  case (Cons r rs)
  show ?case
  proof (cases "i \<ge> 3")
    case True
    then show ?thesis by simp
  next
    case False
    then have "3 - i = Suc (3 - (i + 1))" by simp
    with False Cons show ?thesis by simp
  qed
qed

lemma buildPostmortemMessage_rules:
  "drop 5 (buildPostmortemMessage L pm) = map rule_block (take 3 (PM_RemediationRules pm))"
  by (simp add: buildPostmortemMessage_def Let_def slack_rules_loop_take)

lemma GetSuggestions_length: "length (GetSuggestions a) \<le> 6"
  by (simp add: GetSuggestions_unfold latency_suggestions_def error_rate_suggestions_def
        cpu_suggestions_def memory_suggestions_def)

lemma Generate_ok:
  "provider (pm_buildPrompt L clock ac) = Inr body \<Longrightarrow>
   Generate L provider uuid clock ac =
     (Some \<lparr>PM_ID = uuid,
             PM_IncidentName = ''Incident: '' @ Name (Alert ac) @ '' on '' @ ServiceName ac,
             PM_Date = clock 2, PM_Duration = clock 3 - StartedAt (Alert ac),
             PM_RootCause = [], PM_Impact = [], PM_DetectionMethod = [], PM_ActionItems = [],
             PM_RemediationRules = GetSuggestions (Alert ac),
             PM_Markdown =
               ''# '' @ (''Incident: '' @ Name (Alert ac) @ '' on '' @ ServiceName ac) @ ''\<newline>'' @
               ''**Date:** '' @ Format_DateTime L (clock 2) @ ''\<newline>'' @
               ''**Duration:** '' @ Duration_String L (clock 3 - StartedAt (Alert ac)) @ ''\<newline>\<newline>'' @
               body @ ''\<newline>\<newline>'' @
               ''## Automated Rule-Based Suggestions\<newline>'' @
               (if GetSuggestions (Alert ac) = [] then ''No automated rules matched this incident type.\<newline>''
                else concat (map rule_markdown (GetSuggestions (Alert ac))))\<rparr>, None)"
  by (simp add: Generate_def Let_def assembleMarkdown_result)

text \<open>
  Claim C5. For every context, if the backend's \<open>Analyze\<close> call returns an error then
  \<open>Generate\<close> returns a nil \<open>Postmortem\<close> and the error wrapped with the prefix
  "postmortem generation failed"; and whenever \<open>Generate\<close> returns a \<open>Postmortem\<close> the
  backend call succeeded, so no document is returned on backend failure.
\<close>

theorem Generate_backend_error:
  "(provider (pm_buildPrompt L clock ac) = Inl err \<longrightarrow>
      Generate L provider uuid clock ac = (None, Some (Wrapped ''postmortem generation failed'' err))) \<and>
   (fst (Generate L provider uuid clock ac) \<noteq> None \<longrightarrow>
      (\<exists>body. provider (pm_buildPrompt L clock ac) = Inr body))"
  by (cases "provider (pm_buildPrompt L clock ac)") (simp_all add: Generate_def Let_def)

theorem Generate_backend_error_witness:
  "provider_down (pm_buildPrompt demo_lib demo_clock demo_ctx) = Inl (Err ''backend unavailable'') \<and>
   Generate demo_lib provider_down ''id-1'' demo_clock demo_ctx =
     (None, Some (Wrapped ''postmortem generation failed'' (Err ''backend unavailable'')))"
proof -
  have h: "provider_down (pm_buildPrompt demo_lib demo_clock demo_ctx) = Inl (Err ''backend unavailable'')"
    by (simp add: provider_down_def)
  from Generate_backend_error [of provider_down demo_lib demo_clock demo_ctx "Err ''backend unavailable''" "''id-1''"] h
  show ?thesis by blast
qed

lemma demo_ctx_suggestions:
  "GetSuggestions (Alert demo_ctx) = latency_suggestions AlertInfo_zero @ cpu_suggestions @ memory_suggestions"
proof -
  have low: "ToLower ''Latency_CPU_OOM'' = ''latency_cpu_oom''"
    by (simp add: ToLower_def lower_byte_def)
  show ?thesis
    by (simp add: demo_ctx_def GetSuggestions_unfold low)
qed

text \<open>
  Claim C2 as stated fails: for an alert named "Latency_CPU_OOM" and a successful
  backend response, the rule engine returns four suggestions, and the document rendered
  by \<open>Generate\<close> ends with the rendering of the fourth one.
\<close>

theorem Generate_markdown_counterexample:
  "length (PM_RemediationRules (the (fst (Generate demo_lib provider_ok ''id-1'' demo_clock demo_ctx)))) = 4 \<and>
   PM_RemediationRules (the (fst (Generate demo_lib provider_ok ''id-1'' demo_clock demo_ctx))) ! 3 =
     hd memory_suggestions \<and>
   suffix (rule_markdown (hd memory_suggestions))
     (PM_Markdown (the (fst (Generate demo_lib provider_ok ''id-1'' demo_clock demo_ctx))))"
proof -
  have p: "provider_ok (pm_buildPrompt demo_lib demo_clock demo_ctx) = Inr ''## 1. Summary''"
    by (simp add: provider_ok_def)
  note g = Generate_ok [where provider = provider_ok and L = demo_lib and clock = demo_clock
      and ac = demo_ctx and body = "''## 1. Summary''" and uuid = "''id-1''", OF p]
  have four: "length (GetSuggestions (Alert demo_ctx)) = 4"
    by (simp add: demo_ctx_suggestions latency_suggestions_def cpu_suggestions_def memory_suggestions_def)
  have nth: "GetSuggestions (Alert demo_ctx) ! 3 = hd memory_suggestions"
    by (simp add: demo_ctx_suggestions latency_suggestions_def cpu_suggestions_def memory_suggestions_def)
  have ne: "GetSuggestions (Alert demo_ctx) \<noteq> []"
    using four by auto
  have cc: "concat (map rule_markdown (GetSuggestions (Alert demo_ctx))) =
      concat (map rule_markdown (latency_suggestions AlertInfo_zero @ cpu_suggestions)) @
      rule_markdown (hd memory_suggestions)"
    by (simp add: demo_ctx_suggestions memory_suggestions_def)
  have md: "\<exists>pre. PM_Markdown (the (fst (Generate demo_lib provider_ok ''id-1'' demo_clock demo_ctx))) =
      pre @ rule_markdown (hd memory_suggestions)"
    unfolding g using ne cc
    by (simp del: append_assoc add: append_assoc [symmetric])
  then have "suffix (rule_markdown (hd memory_suggestions))
     (PM_Markdown (the (fst (Generate demo_lib provider_ok ''id-1'' demo_clock demo_ctx))))"
    by (auto simp add: suffix_def)
  then show ?thesis
    using four nth by (simp add: g)
qed

text \<open>
  Claim C2, amended. For every context and every successful backend response, the
  document rendered by \<open>Generate\<close> is the title line, the date and duration header, the
  backend narrative and the section "Automated Rule-Based Suggestions" listing every
  suggestion returned by the rule engine, in order (at most six can match), or a fixed
  sentence when none matched. The cap at the first three suggestions is applied by the
  Slack message built from the postmortem, not by the document.
\<close>

theorem Generate_markdown_lists_all:
  assumes "provider (pm_buildPrompt L clock ac) = Inr body"
  shows "\<exists>pm. Generate L provider uuid clock ac = (Some pm, None) \<and>
           PM_RemediationRules pm = GetSuggestions (Alert ac) \<and>
           length (PM_RemediationRules pm) \<le> 6 \<and>
           PM_Markdown pm =
             ''# '' @ PM_IncidentName pm @ ''\<newline>'' @
             ''**Date:** '' @ Format_DateTime L (PM_Date pm) @ ''\<newline>'' @
             ''**Duration:** '' @ Duration_String L (PM_Duration pm) @ ''\<newline>\<newline>'' @
             body @ ''\<newline>\<newline>'' @
             ''## Automated Rule-Based Suggestions\<newline>'' @
             (if PM_RemediationRules pm = [] then ''No automated rules matched this incident type.\<newline>''
              else concat (map rule_markdown (PM_RemediationRules pm))) \<and>
           drop 5 (buildPostmortemMessage L pm) = map rule_block (take 3 (PM_RemediationRules pm))"
  using Generate_ok [where provider = provider and L = L and clock = clock and ac = ac and body = body
      and uuid = uuid, OF assms]
  by (simp add: GetSuggestions_length buildPostmortemMessage_rules)

theorem Generate_markdown_lists_all_witness:
  "provider_ok (pm_buildPrompt demo_lib demo_clock demo_ctx) = Inr ''## 1. Summary'' \<and>
   (\<exists>pm. Generate demo_lib provider_ok ''id-1'' demo_clock demo_ctx = (Some pm, None) \<and>
      PM_RemediationRules pm = latency_suggestions AlertInfo_zero @ cpu_suggestions @ memory_suggestions)"
proof -
  have p: "provider_ok (pm_buildPrompt demo_lib demo_clock demo_ctx) = Inr ''## 1. Summary''"
    by (simp add: provider_ok_def)
  from Generate_markdown_lists_all [where provider = provider_ok and L = demo_lib and clock = demo_clock
      and ac = demo_ctx and body = "''## 1. Summary''" and uuid = "''id-1''", OF p] obtain pm where
    "Generate demo_lib provider_ok ''id-1'' demo_clock demo_ctx = (Some pm, None)"
    "PM_RemediationRules pm = GetSuggestions (Alert demo_ctx)"
    by blast
  with p show ?thesis
    by (simp add: demo_ctx_suggestions)
qed

section \<open>Properties of the analysis engine and of commit rendering\<close>

lemma slice_to_ok: "n \<le> length s \<Longrightarrow> slice_to s n = Inr (take n s)"
  by (simp add: slice_to_def)

lemma slice_to_panic: "length s < n \<Longrightarrow> slice_to s n = Inl (SliceBoundsOutOfRange n (length s))"
  by (simp add: slice_to_def)

lemma formatCommits_loop_ok:
  "\<forall>c \<in> set (take (10 - i) cs). 7 \<le> length (SHA c) \<Longrightarrow>
   formatCommits_loop i cs r = Inr (r @ concat (map commit_line (take (10 - i) cs)))"
proof (induction cs arbitrary: i r)
  case Nil
  then show ?case by simp
next
  case (Cons c cs)
  show ?case
  proof (cases "i \<ge> 10")
    case True
    then show ?thesis by simp
  next
    case False
    then have s: "10 - i = Suc (10 - (i + 1))" by simp
    from Cons.prems s have sha: "7 \<le> length (SHA c)"
      and rest: "\<forall>c \<in> set (take (10 - (i + 1)) cs). 7 \<le> length (SHA c)"
      by simp_all
    from False sha Cons.IH [OF rest] s show ?thesis
      by (simp add: slice_to_ok commit_line_def)
  qed
qed

lemma formatCommits_loop_panic:
  "c \<in> set (take (10 - i) cs) \<Longrightarrow> length (SHA c) < 7 \<Longrightarrow>
   \<exists>n < 7. formatCommits_loop i cs r = Inl (SliceBoundsOutOfRange 7 n)"
proof (induction cs arbitrary: i r)
  case Nil
  then show ?case by simp
next
  case (Cons d cs)
  from Cons.prems(1) have i: "i < 10"
    by (cases "i < 10") simp_all
  then have s: "10 - i = Suc (10 - (i + 1))" by simp
  show ?case
  proof (cases "length (SHA d) < 7")
    case True
    with i show ?thesis by (auto simp add: slice_to_panic)
  next
    case False
    with Cons.prems s have "c \<in> set (take (10 - (i + 1)) cs)" by auto
    from Cons.IH [OF this Cons.prems(2)] False i show ?thesis
      by (simp add: slice_to_ok)
  qed
qed

lemma formatCommits_ok:
  "\<forall>c \<in> set (take 10 cs). 7 \<le> length (SHA c) \<Longrightarrow>
   formatCommits cs = Inr (if cs = [] then ''No recent commits found.'' else concat (map commit_line (take 10 cs)))"
  using formatCommits_loop_ok [of 0 cs "[]"] by (simp add: formatCommits_def)

lemma formatCommits_panic:
  "c \<in> set (take 10 cs) \<Longrightarrow> length (SHA c) < 7 \<Longrightarrow>
   \<exists>n < 7. formatCommits cs = Inl (SliceBoundsOutOfRange 7 n)"
  using formatCommits_loop_panic [of c 0 cs "[]"] by (auto simp add: formatCommits_def)

lemma formatCommits_returns_iff:
  "(\<exists>s. formatCommits cs = Inr s) = (\<forall>c \<in> set (take 10 cs). 7 \<le> length (SHA c))"
proof
  assume "\<exists>s. formatCommits cs = Inr s"
  then obtain s where s: "formatCommits cs = Inr s" ..
  show "\<forall>c \<in> set (take 10 cs). 7 \<le> length (SHA c)"
  proof (rule ccontr)
    assume "\<not> (\<forall>c \<in> set (take 10 cs). 7 \<le> length (SHA c))"
    then obtain c where "c \<in> set (take 10 cs)" "length (SHA c) < 7" by auto
    from formatCommits_panic [OF this] s show False by auto
  qed
next
  assume "\<forall>c \<in> set (take 10 cs). 7 \<le> length (SHA c)"
  from formatCommits_ok [OF this] show "\<exists>s. formatCommits cs = Inr s" by simp
qed

lemma characters_ascii:
  "\<forall>b \<in> set s. (of_char b :: nat) < 128 \<Longrightarrow> characters s = length s"
  by (induction s) (simp_all add: characters_def is_continuation_byte_def)

lemma characters_append: "characters (s @ t) = characters s + characters t"
  by (simp add: characters_def)

lemma length_e_acutes: "length (concat (replicate n e_acute)) = 2 * n"
  by (induction n) (simp_all add: e_acute_def)

lemma characters_e_acutes: "characters (concat (replicate n e_acute)) = n"
  by (induction n) (simp_all add: e_acute_def characters_def is_continuation_byte_def)

lemma e_acutes_split:
  "concat (replicate (k + j) e_acute) = concat (replicate k e_acute) @ concat (replicate j e_acute)"
  by (simp add: replicate_add)

lemma take_e_acutes:
  "take (2 * k) (concat (replicate (k + j) e_acute)) = concat (replicate k e_acute)"
  by (simp add: e_acutes_split length_e_acutes)

lemma e_acute_message_25: "take 50 e_acute_message = concat (replicate 25 e_acute)"
  using take_e_acutes [of 25 35] by (simp add: e_acute_message_def)

lemma e_acute_message_50: "prefix (concat (replicate 50 e_acute)) e_acute_message"
  using e_acutes_split [of 50 10] by (simp add: e_acute_message_def)

lemma truncate_e_acute_message:
  "truncate e_acute_message 50 = concat (replicate 25 e_acute) @ ''...''"
  by (simp add: truncate_def e_acute_message_25) (simp add: e_acute_message_def length_e_acutes)

text \<open>
  Claim C8 as stated fails: a commit message of 60 characters (60 times the two-byte
  letter U+00E9, 120 bytes) is longer than 50 characters, and it is rendered as its
  first 25 characters followed by the marker, not as its first 50 characters followed
  by the marker: \<open>truncate\<close> measures and cuts in bytes.
\<close>

theorem truncate_characters_counterexample:
  "characters e_acute_message = 60 \<and>
   truncate e_acute_message 50 = concat (replicate 25 e_acute) @ ''...'' \<and>
   characters (concat (replicate 25 e_acute)) = 25 \<and>
   prefix (concat (replicate 50 e_acute)) e_acute_message \<and>
   characters (concat (replicate 50 e_acute)) = 50 \<and>
   truncate e_acute_message 50 \<noteq> concat (replicate 50 e_acute) @ ''...'' \<and>
   formatCommits [demo_commit_info\<lparr>Message := e_acute_message\<rparr>] =
     Inr (''- 0123456: '' @ concat (replicate 25 e_acute) @ ''... (by dev)\<newline>'')"
proof -
  have ne: "truncate e_acute_message 50 \<noteq> concat (replicate 50 e_acute) @ ''...''"
  proof
    assume "truncate e_acute_message 50 = concat (replicate 50 e_acute) @ ''...''"
    then have "length (concat (replicate 25 e_acute) @ ''...'') =
        length (concat (replicate 50 e_acute) @ ''...'')"
      by (simp add: truncate_e_acute_message)
    then show False
      by (simp add: length_e_acutes)
  qed
  have fc: "formatCommits [demo_commit_info\<lparr>Message := e_acute_message\<rparr>] =
     Inr (''- 0123456: '' @ concat (replicate 25 e_acute) @ ''... (by dev)\<newline>'')"
    by (simp add: formatCommits_def slice_to_def demo_commit_info_def truncate_e_acute_message)
  show ?thesis
    using ne fc
    by (simp add: characters_e_acutes truncate_e_acute_message e_acute_message_50)
       (simp add: e_acute_message_def characters_e_acutes)
qed

text \<open>
  Claim C8, amended. In the commit section of the full-context prompt, a commit message
  longer than 50 bytes is rendered as its first 50 bytes followed by the marker "..."
  (a 60-byte message renders as 53 bytes), a shorter one unchanged; for a message of
  ASCII characters bytes are characters, so one longer than 50 characters renders as
  its first 50 characters plus the marker. Whenever \<open>formatCommits\<close> returns on a
  non-empty list, its text is the lines of the first 10 commits only, so a 15-entry
  list renders exactly 10 entries; it returns whenever the first 10 SHAs have at least
  7 bytes.
\<close>

theorem formatCommits_truncation_and_cap:
  "(50 < length m \<longrightarrow> truncate m 50 = take 50 m @ ''...'') \<and>
   (length m \<le> 50 \<longrightarrow> truncate m 50 = m) \<and>
   (length m = 60 \<longrightarrow> length (truncate m 50) = 50 + length ''...'') \<and>
   ((\<forall>b \<in> set m. (of_char b :: nat) < 128) \<and> 50 < characters m \<longrightarrow>
      truncate m 50 = take 50 m @ ''...'' \<and> characters (take 50 m) = 50) \<and>
   (cs \<noteq> [] \<and> (\<forall>c \<in> set (take 10 cs). 7 \<le> length (SHA c)) \<longrightarrow>
      formatCommits cs = Inr (concat (map commit_line (take 10 cs)))) \<and>
   (cs \<noteq> [] \<and> formatCommits cs = Inr out \<longrightarrow> out = concat (map commit_line (take 10 cs))) \<and>
   length (take 10 cs) \<le> 10 \<and>
   (length cs = 15 \<longrightarrow> length (take 10 cs) = 10)"
proof -
  have a: "cs \<noteq> [] \<and> (\<forall>c \<in> set (take 10 cs). 7 \<le> length (SHA c)) \<longrightarrow>
      formatCommits cs = Inr (concat (map commit_line (take 10 cs)))"
    using formatCommits_ok [of cs] by simp
  have b: "cs \<noteq> [] \<and> formatCommits cs = Inr out \<longrightarrow> out = concat (map commit_line (take 10 cs))"
  proof (intro impI, elim conjE)
    assume ne: "cs \<noteq> []" and r: "formatCommits cs = Inr out"
    then have "\<forall>c \<in> set (take 10 cs). 7 \<le> length (SHA c)"
      using formatCommits_returns_iff [of cs] by blast
    from formatCommits_ok [OF this] ne r show "out = concat (map commit_line (take 10 cs))"
      by simp
  qed
  have c: "(\<forall>b \<in> set m. (of_char b :: nat) < 128) \<and> 50 < characters m \<longrightarrow>
      truncate m 50 = take 50 m @ ''...'' \<and> characters (take 50 m) = 50"
  proof (intro impI, elim conjE)
    assume ascii: "\<forall>b \<in> set m. (of_char b :: nat) < 128" and long: "50 < characters m"
    from ascii have len: "characters m = length m"
      by (rule characters_ascii)
    from ascii have "\<forall>b \<in> set (take 50 m). (of_char b :: nat) < 128"
      by (auto dest: in_set_takeD)
    then have "characters (take 50 m) = length (take 50 m)"
      by (rule characters_ascii)
    with long len show "truncate m 50 = take 50 m @ ''...'' \<and> characters (take 50 m) = 50"
      by (simp add: truncate_def)
  qed
  show ?thesis
    using a b c by (simp add: truncate_def)
qed

theorem formatCommits_truncation_and_cap_witness:
  "50 < length (replicate 60 (CHR ''x'')) \<and>
   set (replicate 60 (CHR ''x'')) = {CHR ''x''} \<and> (of_char (CHR ''x'') :: nat) < 128 \<and>
   50 < characters (replicate 60 (CHR ''x'')) \<and>
   truncate (replicate 60 (CHR ''x'')) 50 = replicate 50 (CHR ''x'') @ ''...'' \<and>
   characters (take 50 (replicate 60 (CHR ''x''))) = 50 \<and>
   length (truncate (replicate 60 (CHR ''x'')) 50) = 53 \<and>
   length (replicate 15 demo_commit_info) = 15 \<and>
   formatCommits (replicate 15 demo_commit_info) = Inr (concat (replicate 10 (commit_line demo_commit_info)))"
proof -
  have h1: "50 < length (replicate 60 (CHR ''x''))" and h2: "length (replicate 60 (CHR ''x'')) = 60"
    by simp_all
  have h3: "replicate 15 demo_commit_info \<noteq> [] \<and>
      (\<forall>c \<in> set (take 10 (replicate 15 demo_commit_info)). 7 \<le> length (SHA c))"
    by (simp add: demo_commit_info_def)
  have h4: "length (replicate 15 demo_commit_info) = 15"
    by simp
  have h5: "\<forall>b \<in> set (replicate 60 (CHR ''x'')). (of_char b :: nat) < 128"
    by simp
  from characters_ascii [OF h5] have h6: "50 < characters (replicate 60 (CHR ''x''))"
    by simp
  note t = formatCommits_truncation_and_cap [where m = "replicate 60 (CHR ''x'')"
      and cs = "replicate 15 demo_commit_info"
      and out = "concat (replicate 10 (commit_line demo_commit_info))"]
  from t h1 have a: "truncate (replicate 60 (CHR ''x'')) 50 = take 50 (replicate 60 (CHR ''x'')) @ ''...''"
    by blast
  from t h2 have b: "length (truncate (replicate 60 (CHR ''x'')) 50) = 50 + length ''...''"
    by blast
  from t h3 have c: "formatCommits (replicate 15 demo_commit_info) =
      Inr (concat (map commit_line (take 10 (replicate 15 demo_commit_info))))"
    by blast
  from t h5 h6 have d: "characters (take 50 (replicate 60 (CHR ''x''))) = 50"
    by blast
  from a b c d h1 h4 h6 show ?thesis
    by simp
qed

lemma recentCommits_loop_ok:
  "\<forall>c \<in> set (take (5 - i) cs). 7 \<le> length (SHA c) \<Longrightarrow> \<exists>s. recentCommits_loop i cs r = Inr s"
proof (induction cs arbitrary: i r)
  case Nil
  then show ?case by simp
next
  case (Cons c cs)
  show ?case
  proof (cases "i \<ge> 5")
    case True
    then show ?thesis by simp
  next
    case False
    then have s: "5 - i = Suc (5 - (i + 1))" by simp
    from Cons.prems s have sha: "7 \<le> length (SHA c)"
      and rest: "\<forall>c \<in> set (take (5 - (i + 1)) cs). 7 \<le> length (SHA c)"
      by simp_all
    from False sha Cons.IH [OF rest] show ?thesis
      by (simp add: slice_to_ok)
  qed
qed

lemma recentCommits_loop_head_panic:
  "length (SHA c) < 7 \<Longrightarrow> recentCommits_loop 0 (c # cs) r = Inl (SliceBoundsOutOfRange 7 (length (SHA c)))"
  by (simp add: slice_to_panic)

lemma formatCommits_head_panic:
  "length (SHA c) < 7 \<Longrightarrow> formatCommits (c # cs) = Inl (SliceBoundsOutOfRange 7 (length (SHA c)))"
  by (simp add: formatCommits_def slice_to_panic)

lemma buildContextPrompt_panic:
  "formatCommits (RecentCommits ctx) = Inl p \<Longrightarrow> buildContextPrompt L ctx = Inl p"
  by (simp add: buildContextPrompt_def)

lemma buildContextPrompt_returns:
  "formatCommits (RecentCommits ctx) = Inr s \<Longrightarrow> \<exists>p. buildContextPrompt L ctx = Inr p"
  by (simp add: buildContextPrompt_def)

lemma AnalyzeWithContext_panic:
  "buildContextPrompt L ctx = Inl p \<Longrightarrow> AnalyzeWithContext L provider uuid now ctx = Inl p"
  by (simp add: AnalyzeWithContext_def)

lemma AnalyzeWithContext_returns:
  "buildContextPrompt L ctx = Inr p \<Longrightarrow> \<exists>res. AnalyzeWithContext L provider uuid now ctx = Inr res"
  by (cases "provider p") (simp_all add: AnalyzeWithContext_def)

lemma HandleGetRecentCommits_returns:
  assumes "\<forall>c \<in> set (r_commits (sent L o' repoName now CommitsTask)). 7 \<le> length (SHA c)"
  shows "\<exists>res. HandleGetRecentCommits L o' arr now repoName = Inr res"
proof -
  let ?cs = "r_commits (sent L o' repoName now CommitsTask)"
  from assms have "\<forall>c \<in> set (take (5 - 0) ?cs). 7 \<le> length (SHA c)"
    by (auto dest: in_set_takeD)
  from recentCommits_loop_ok [OF this] obtain s where
    "recentCommits_loop 0 ?cs (''Recent Commits for '' @ repoName @ '':\<newline>'') = Inr s"
    by blast
  then show ?thesis
    by (simp add: HandleGetRecentCommits_def PrepareContext_result split: option.splits)
qed

lemma HandleGetRecentCommits_panic:
  assumes "r_err (sent L o' repoName now CommitsTask) = None"
    and "r_err (sent L o' repoName now TracesTask) = None"
    and "r_commits (sent L o' repoName now CommitsTask) = c # cs"
    and "length (SHA c) < 7"
  shows "HandleGetRecentCommits L o' arr now repoName = Inl (SliceBoundsOutOfRange 7 (length (SHA c)))"
  using assms
  by (simp add: HandleGetRecentCommits_def PrepareContext_result last_error_cases slice_to_panic)

text \<open>
  Claim C10. Commit rendering slices each SHA with \<open>c.SHA[:7]\<close> and no length test.
  If every commit has a SHA of at least 7 bytes then \<open>formatCommits\<close>,
  \<open>buildContextPrompt\<close>, \<open>AnalyzeWithContext\<close> and the recent-commits report of the MCP
  server return without a panic. If the first commit has a shorter SHA, each of them
  panics with slice bounds out of range; the MCP handler does so when the fetches
  returned no error and the first commit fetched has a short SHA.
\<close>

theorem short_SHA_slice_panics:
  "((\<forall>c \<in> set cs. 7 \<le> length (SHA c)) \<longrightarrow>
      (\<exists>s. formatCommits cs = Inr s) \<and>
      (\<exists>p. buildContextPrompt L (ctx\<lparr>RecentCommits := cs\<rparr>) = Inr p) \<and>
      (\<exists>res. AnalyzeWithContext L provider uuid now (ctx\<lparr>RecentCommits := cs\<rparr>) = Inr res) \<and>
      (\<exists>s. recentCommits_loop 0 cs report = Inr s)) \<and>
   (length (SHA c) < 7 \<longrightarrow>
      formatCommits (c # cs') = Inl (SliceBoundsOutOfRange 7 (length (SHA c))) \<and>
      buildContextPrompt L (ctx\<lparr>RecentCommits := c # cs'\<rparr>) = Inl (SliceBoundsOutOfRange 7 (length (SHA c))) \<and>
      AnalyzeWithContext L provider uuid now (ctx\<lparr>RecentCommits := c # cs'\<rparr>) =
        Inl (SliceBoundsOutOfRange 7 (length (SHA c))) \<and>
      recentCommits_loop 0 (c # cs') report = Inl (SliceBoundsOutOfRange 7 (length (SHA c)))) \<and>
   ((\<forall>c \<in> set (r_commits (sent L o' repoName now CommitsTask)). 7 \<le> length (SHA c)) \<longrightarrow>
      (\<exists>res. HandleGetRecentCommits L o' arr now repoName = Inr res)) \<and>
   (r_err (sent L o' repoName now CommitsTask) = None \<and>
    r_err (sent L o' repoName now TracesTask) = None \<and>
    r_commits (sent L o' repoName now CommitsTask) = c # cs' \<and> length (SHA c) < 7 \<longrightarrow>
      HandleGetRecentCommits L o' arr now repoName = Inl (SliceBoundsOutOfRange 7 (length (SHA c))))"
proof (intro conjI impI)
  assume all: "\<forall>c \<in> set cs. 7 \<le> length (SHA c)"
  then have t10: "\<forall>c \<in> set (take 10 cs). 7 \<le> length (SHA c)"
    and t5: "\<forall>c \<in> set (take (5 - 0) cs). 7 \<le> length (SHA c)"
    by (auto dest: in_set_takeD)
  from formatCommits_ok [OF t10] obtain s where s: "formatCommits cs = Inr s"
    by simp
  then show "\<exists>s. formatCommits cs = Inr s" ..
  from s have "formatCommits (RecentCommits (ctx\<lparr>RecentCommits := cs\<rparr>)) = Inr s"
    by simp
  from buildContextPrompt_returns [OF this] obtain p where
    p: "buildContextPrompt L (ctx\<lparr>RecentCommits := cs\<rparr>) = Inr p" ..
  then show "\<exists>p. buildContextPrompt L (ctx\<lparr>RecentCommits := cs\<rparr>) = Inr p" ..
  from AnalyzeWithContext_returns [OF p]
  show "\<exists>res. AnalyzeWithContext L provider uuid now (ctx\<lparr>RecentCommits := cs\<rparr>) = Inr res" .
  from recentCommits_loop_ok [OF t5] show "\<exists>s. recentCommits_loop 0 cs report = Inr s" .
next
  assume short: "length (SHA c) < 7"
  from formatCommits_head_panic [OF short]
  show f: "formatCommits (c # cs') = Inl (SliceBoundsOutOfRange 7 (length (SHA c)))" .
  then have "formatCommits (RecentCommits (ctx\<lparr>RecentCommits := c # cs'\<rparr>)) =
      Inl (SliceBoundsOutOfRange 7 (length (SHA c)))"
    by simp
  from buildContextPrompt_panic [OF this]
  show b: "buildContextPrompt L (ctx\<lparr>RecentCommits := c # cs'\<rparr>) =
      Inl (SliceBoundsOutOfRange 7 (length (SHA c)))" .
  from AnalyzeWithContext_panic [OF b]
  show "AnalyzeWithContext L provider uuid now (ctx\<lparr>RecentCommits := c # cs'\<rparr>) =
      Inl (SliceBoundsOutOfRange 7 (length (SHA c)))" .
  from recentCommits_loop_head_panic [OF short]
  show "recentCommits_loop 0 (c # cs') report = Inl (SliceBoundsOutOfRange 7 (length (SHA c)))" .
next
  assume "\<forall>c \<in> set (r_commits (sent L o' repoName now CommitsTask)). 7 \<le> length (SHA c)"
  from HandleGetRecentCommits_returns [OF this]
  show "\<exists>res. HandleGetRecentCommits L o' arr now repoName = Inr res" .
next
  assume "r_err (sent L o' repoName now CommitsTask) = None \<and>
    r_err (sent L o' repoName now TracesTask) = None \<and>
    r_commits (sent L o' repoName now CommitsTask) = c # cs' \<and> length (SHA c) < 7"
  then show "HandleGetRecentCommits L o' arr now repoName = Inl (SliceBoundsOutOfRange 7 (length (SHA c)))"
    using HandleGetRecentCommits_panic by blast
qed

theorem short_SHA_slice_panics_witness:
  "length (SHA (toCommitInfo demo_lib short_sha_commit)) < 7 \<and>
   formatCommits [toCommitInfo demo_lib short_sha_commit] = Inl (SliceBoundsOutOfRange 7 5) \<and>
   AnalyzeWithContext demo_lib provider_ok ''id-1'' 1000
     (demo_ctx\<lparr>RecentCommits := [toCommitInfo demo_lib short_sha_commit]\<rparr>) = Inl (SliceBoundsOutOfRange 7 5) \<and>
   HandleGetRecentCommits demo_lib orch_short_sha MCT 900 ''acme/checkout'' = Inl (SliceBoundsOutOfRange 7 5) \<and>
   (\<exists>s. formatCommits [demo_commit_info] = Inr s) \<and>
   (\<exists>res. HandleGetRecentCommits demo_lib orch_rps_only MCT 900 ''acme/checkout'' = Inr res)"
proof -
  let ?c = "toCommitInfo demo_lib short_sha_commit"
  have sha: "SHA ?c = ''abc12''"
    by (simp add: toCommitInfo_def short_sha_commit_def)
  have short: "length (SHA ?c) < 7"
    by (simp add: sha)
  have ok: "\<forall>c \<in> set [demo_commit_info]. 7 \<le> length (SHA c)"
    by (simp add: demo_commit_info_def)
  have ce: "r_err (sent demo_lib orch_short_sha ''acme/checkout'' 900 CommitsTask) = None"
    and cc: "r_commits (sent demo_lib orch_short_sha ''acme/checkout'' 900 CommitsTask) = [?c]"
    by (simp_all add: sent_def task_result_simps fetchCommits_def orch_short_sha_def)
  have te: "r_err (sent demo_lib orch_short_sha ''acme/checkout'' 900 TracesTask) = None"
    by (simp add: sent_def task_result_simps fetchTraces_def orch_short_sha_def)
  have good: "\<forall>c \<in> set (r_commits (sent demo_lib orch_rps_only ''acme/checkout'' 900 CommitsTask)).
      7 \<le> length (SHA c)"
    by (simp add: sent_def task_result_simps fetchCommits_def orch_rps_only_def github_ok_def
          toCommitInfo_def demo_commit_def)
  note t1 = short_SHA_slice_panics [where cs = "[demo_commit_info]" and L = demo_lib and ctx = demo_ctx
      and provider = provider_ok and uuid = "''id-1''" and now = 1000 and report = "[]" and c = ?c
      and cs' = "[]" and o' = orch_short_sha and repoName = "''acme/checkout''" and arr = MCT]
  note t2 = short_SHA_slice_panics [where cs = "[demo_commit_info]" and L = demo_lib and ctx = demo_ctx
      and provider = provider_ok and uuid = "''id-1''" and now = 900 and report = "[]" and c = ?c
      and cs' = "[]" and o' = orch_short_sha and repoName = "''acme/checkout''" and arr = MCT]
  note t3 = short_SHA_slice_panics [where cs = "[demo_commit_info]" and L = demo_lib and ctx = demo_ctx
      and provider = provider_ok and uuid = "''id-1''" and now = 900 and report = "[]" and c = ?c
      and cs' = "[]" and o' = orch_rps_only and repoName = "''acme/checkout''" and arr = MCT]
  from t1 short have a: "formatCommits [?c] = Inl (SliceBoundsOutOfRange 7 (length (SHA ?c)))"
    and b: "AnalyzeWithContext demo_lib provider_ok ''id-1'' 1000 (demo_ctx\<lparr>RecentCommits := [?c]\<rparr>) =
      Inl (SliceBoundsOutOfRange 7 (length (SHA ?c)))"
    by blast+
  from t2 short ce te cc have h: "HandleGetRecentCommits demo_lib orch_short_sha MCT 900 ''acme/checkout'' =
      Inl (SliceBoundsOutOfRange 7 (length (SHA ?c)))"
    by blast
  from t1 ok have s: "\<exists>s. formatCommits [demo_commit_info] = Inr s"
    by blast
  from t3 good have g: "\<exists>res. HandleGetRecentCommits demo_lib orch_rps_only MCT 900 ''acme/checkout'' = Inr res"
    by blast
  from a b h s g short show ?thesis
    by (simp add: sha)
qed

lemma GetLabel_nilmap: "GetLabel a k = nilmap_index (AI_Labels a) k"
  by (cases "AI_Labels a") (simp_all add: GetLabel_def nilmap_index_def)

lemma GetAnnotation_nilmap: "GetAnnotation a k = nilmap_index (AI_Annotations a) k"
  by (cases "AI_Annotations a") (simp_all add: GetAnnotation_def nilmap_index_def)

lemma Analyze_echo:
  "map_option AR_RootCause (fst (Analyze L echo_provider uuid now alert)) = Some (buildPrompt L alert)"
  by (simp add: Analyze_def echo_provider_def)

lemma AnalyzeWithContext_echo:
  "map_sum id (\<lambda>r. map_option AR_RootCause (fst r)) (AnalyzeWithContext L echo_provider uuid now ctx) =
   map_sum id Some (buildContextPrompt L ctx)"
  by (cases "buildContextPrompt L ctx") (simp_all add: AnalyzeWithContext_def echo_provider_def)

lemma buildPrompt_reads:
  assumes "nilmap_index (AI_Labels a1) ''service_name'' = nilmap_index (AI_Labels a2) ''service_name''"
    and "nilmap_index (AI_Labels a1) ''alertname'' = nilmap_index (AI_Labels a2) ''alertname''"
    and "nilmap_index (AI_Labels a1) ''severity'' = nilmap_index (AI_Labels a2) ''severity''"
    and "nilmap_index (AI_Annotations a1) ''summary'' = nilmap_index (AI_Annotations a2) ''summary''"
    and "AI_StartsAt a1 = AI_StartsAt a2"
  shows "buildPrompt L a1 = buildPrompt L a2"
  using assms by (simp add: buildPrompt_def GetLabel_nilmap GetAnnotation_nilmap)

lemma buildContextPrompt_reads:
  assumes "ServiceName c1 = ServiceName c2"
    and "Name (Alert c1) = Name (Alert c2)" and "Severity (Alert c1) = Severity (Alert c2)"
    and "Summary (Alert c1) = Summary (Alert c2)" and "StartedAt (Alert c1) = StartedAt (Alert c2)"
    and "LatencyP99 (Metrics c1) = LatencyP99 (Metrics c2)" and "ErrorRate (Metrics c1) = ErrorRate (Metrics c2)"
    and "RPS (Metrics c1) = RPS (Metrics c2)"
    and "BaselineLatency (Metrics c1) = BaselineLatency (Metrics c2)"
    and "BaselineErrorRate (Metrics c1) = BaselineErrorRate (Metrics c2)"
    and "P99Latency (Traces c1) = P99Latency (Traces c2)"
    and "SlowSpans (Traces c1) = SlowSpans (Traces c2)"
    and "length (ErrorSpans (Traces c1)) = length (ErrorSpans (Traces c2))"
    and "RecentCommits c1 = RecentCommits c2"
  shows "buildContextPrompt L c1 = buildContextPrompt L c2"
  by (simp only: buildContextPrompt_def assms)

text \<open>
  For comparison: the prompt of the postmortem composer embeds a clock reading, so two
  runs on the same context at different times send different prompts.
\<close>

lemma pm_buildPrompt_reads_clock:
  "pm_buildPrompt stamp_lib (\<lambda>k. 0) demo_ctx \<noteq> pm_buildPrompt stamp_lib (\<lambda>k. 1) demo_ctx"
  by (simp add: pm_buildPrompt_def stamp_lib_def demo_lib_def)

text \<open>
  Claim C7. Prompt construction is a function of the input alone. Two runs of \<open>Analyze\<close>
  (or of \<open>AnalyzeWithContext\<close>) on the same input send the same prompt to the backend,
  whatever identifier and clock reading each run draws: the prompt is the builder's
  text for the input. The alert-only builder reads only three labels, the summary
  annotation and the start time of the alert, by key lookup; the full-context builder
  reads only the listed fields of the context. So inputs that agree on these, and in
  particular identical inputs, give byte-identical prompts (or the same panic).
\<close>

theorem prompt_construction_deterministic:
  "prompt_seen (Analyze L echo_provider uuid1 now1 alert) = Some (buildPrompt L alert) \<and>
   prompt_seen (Analyze L echo_provider uuid1 now1 alert) =
     prompt_seen (Analyze L echo_provider uuid2 now2 alert) \<and>
   map_sum id prompt_seen (AnalyzeWithContext L echo_provider uuid1 now1 ctx) =
     map_sum id Some (buildContextPrompt L ctx) \<and>
   map_sum id prompt_seen (AnalyzeWithContext L echo_provider uuid1 now1 ctx) =
     map_sum id prompt_seen (AnalyzeWithContext L echo_provider uuid2 now2 ctx) \<and>
   (a1 = a2 \<longrightarrow> buildPrompt L a1 = buildPrompt L a2) \<and>
   (c1 = c2 \<longrightarrow> buildContextPrompt L c1 = buildContextPrompt L c2) \<and>
   (nilmap_index (AI_Labels a1) ''service_name'' = nilmap_index (AI_Labels a2) ''service_name'' \<and>
    nilmap_index (AI_Labels a1) ''alertname'' = nilmap_index (AI_Labels a2) ''alertname'' \<and>
    nilmap_index (AI_Labels a1) ''severity'' = nilmap_index (AI_Labels a2) ''severity'' \<and>
    nilmap_index (AI_Annotations a1) ''summary'' = nilmap_index (AI_Annotations a2) ''summary'' \<and>
    AI_StartsAt a1 = AI_StartsAt a2 \<longrightarrow>
      buildPrompt L a1 = buildPrompt L a2) \<and>
   (ServiceName c1 = ServiceName c2 \<and>
    Name (Alert c1) = Name (Alert c2) \<and> Severity (Alert c1) = Severity (Alert c2) \<and>
    Summary (Alert c1) = Summary (Alert c2) \<and> StartedAt (Alert c1) = StartedAt (Alert c2) \<and>
    LatencyP99 (Metrics c1) = LatencyP99 (Metrics c2) \<and> ErrorRate (Metrics c1) = ErrorRate (Metrics c2) \<and>
    RPS (Metrics c1) = RPS (Metrics c2) \<and>
    BaselineLatency (Metrics c1) = BaselineLatency (Metrics c2) \<and>
    BaselineErrorRate (Metrics c1) = BaselineErrorRate (Metrics c2) \<and>
    P99Latency (Traces c1) = P99Latency (Traces c2) \<and>
    SlowSpans (Traces c1) = SlowSpans (Traces c2) \<and>
    length (ErrorSpans (Traces c1)) = length (ErrorSpans (Traces c2)) \<and>
    RecentCommits c1 = RecentCommits c2 \<longrightarrow>
      buildContextPrompt L c1 = buildContextPrompt L c2)"
proof -
  have r1: "prompt_seen (Analyze L echo_provider u n alert) = Some (buildPrompt L alert)" for u n
    using Analyze_echo [of L u n alert] by (simp add: prompt_seen_def)
  have r2: "map_sum id prompt_seen (AnalyzeWithContext L echo_provider u n ctx) =
      map_sum id Some (buildContextPrompt L ctx)" for u n
    using AnalyzeWithContext_echo [of L u n ctx] by (simp add: prompt_seen_def [abs_def])
  have f1: "nilmap_index (AI_Labels a1) ''service_name'' = nilmap_index (AI_Labels a2) ''service_name'' \<and>
    nilmap_index (AI_Labels a1) ''alertname'' = nilmap_index (AI_Labels a2) ''alertname'' \<and>
    nilmap_index (AI_Labels a1) ''severity'' = nilmap_index (AI_Labels a2) ''severity'' \<and>
    nilmap_index (AI_Annotations a1) ''summary'' = nilmap_index (AI_Annotations a2) ''summary'' \<and>
    AI_StartsAt a1 = AI_StartsAt a2 \<longrightarrow>
      buildPrompt L a1 = buildPrompt L a2"
    using buildPrompt_reads [of a1 a2 L] by blast
  have f2: "ServiceName c1 = ServiceName c2 \<and>
    Name (Alert c1) = Name (Alert c2) \<and> Severity (Alert c1) = Severity (Alert c2) \<and>
    Summary (Alert c1) = Summary (Alert c2) \<and> StartedAt (Alert c1) = StartedAt (Alert c2) \<and>
    LatencyP99 (Metrics c1) = LatencyP99 (Metrics c2) \<and> ErrorRate (Metrics c1) = ErrorRate (Metrics c2) \<and>
    RPS (Metrics c1) = RPS (Metrics c2) \<and>
    BaselineLatency (Metrics c1) = BaselineLatency (Metrics c2) \<and>
    BaselineErrorRate (Metrics c1) = BaselineErrorRate (Metrics c2) \<and>
    P99Latency (Traces c1) = P99Latency (Traces c2) \<and>
    SlowSpans (Traces c1) = SlowSpans (Traces c2) \<and>
    length (ErrorSpans (Traces c1)) = length (ErrorSpans (Traces c2)) \<and>
    RecentCommits c1 = RecentCommits c2 \<longrightarrow>
      buildContextPrompt L c1 = buildContextPrompt L c2"
    using buildContextPrompt_reads [of c1 c2 L] by blast
  have i1: "a1 = a2 \<longrightarrow> buildPrompt L a1 = buildPrompt L a2"
    and i2: "c1 = c2 \<longrightarrow> buildContextPrompt L c1 = buildContextPrompt L c2"
    by simp_all
  from r1 [of uuid1 now1] r1 [of uuid2 now2] r2 [of uuid1 now1] r2 [of uuid2 now2] f1 f2 i1 i2
  show ?thesis
    by (intro conjI) simp_all
qed

lemma demo_alert_items_agree:
  "nilmap_index (AI_Labels demo_alert_item) ''service_name'' =
     nilmap_index (AI_Labels demo_alert_item') ''service_name'' \<and>
   nilmap_index (AI_Labels demo_alert_item) ''alertname'' =
     nilmap_index (AI_Labels demo_alert_item') ''alertname'' \<and>
   nilmap_index (AI_Labels demo_alert_item) ''severity'' =
     nilmap_index (AI_Labels demo_alert_item') ''severity'' \<and>
   nilmap_index (AI_Annotations demo_alert_item) ''summary'' =
     nilmap_index (AI_Annotations demo_alert_item') ''summary'' \<and>
   AI_StartsAt demo_alert_item = AI_StartsAt demo_alert_item'"
  by (simp add: demo_alert_item_def demo_alert_item'_def nilmap_index_def map_index_def)

lemma demo_ctxs_agree:
  "ServiceName demo_ctx = ServiceName demo_ctx' \<and>
   Name (Alert demo_ctx) = Name (Alert demo_ctx') \<and> Severity (Alert demo_ctx) = Severity (Alert demo_ctx') \<and>
   Summary (Alert demo_ctx) = Summary (Alert demo_ctx') \<and>
   StartedAt (Alert demo_ctx) = StartedAt (Alert demo_ctx') \<and>
   LatencyP99 (Metrics demo_ctx) = LatencyP99 (Metrics demo_ctx') \<and>
   ErrorRate (Metrics demo_ctx) = ErrorRate (Metrics demo_ctx') \<and>
   RPS (Metrics demo_ctx) = RPS (Metrics demo_ctx') \<and>
   BaselineLatency (Metrics demo_ctx) = BaselineLatency (Metrics demo_ctx') \<and>
   BaselineErrorRate (Metrics demo_ctx) = BaselineErrorRate (Metrics demo_ctx') \<and>
   P99Latency (Traces demo_ctx) = P99Latency (Traces demo_ctx') \<and>
   SlowSpans (Traces demo_ctx) = SlowSpans (Traces demo_ctx') \<and>
   length (ErrorSpans (Traces demo_ctx)) = length (ErrorSpans (Traces demo_ctx')) \<and>
   RecentCommits demo_ctx = RecentCommits demo_ctx'"
  by (simp add: demo_ctx_def demo_ctx'_def MetricsSummary_zero_def)

theorem prompt_construction_deterministic_witness:
  "demo_alert_item \<noteq> demo_alert_item' \<and>
   buildPrompt demo_lib demo_alert_item = buildPrompt demo_lib demo_alert_item' \<and>
   demo_ctx \<noteq> demo_ctx' \<and>
   buildContextPrompt demo_lib demo_ctx = buildContextPrompt demo_lib demo_ctx' \<and>
   prompt_seen (Analyze demo_lib echo_provider ''id-1'' 1000 demo_alert_item) =
     prompt_seen (Analyze demo_lib echo_provider ''id-2'' 2000 demo_alert_item) \<and>
   map_sum id prompt_seen (AnalyzeWithContext demo_lib echo_provider ''id-1'' 1000 demo_ctx) =
     map_sum id prompt_seen (AnalyzeWithContext demo_lib echo_provider ''id-2'' 2000 demo_ctx)"
proof -
  note t = prompt_construction_deterministic [where L = demo_lib and ?uuid1.0 = "''id-1''" and ?now1.0 = 1000
      and ?uuid2.0 = "''id-2''" and ?now2.0 = 2000 and alert = demo_alert_item and ctx = demo_ctx
      and ?a1.0 = demo_alert_item and ?a2.0 = demo_alert_item' and ?c1.0 = demo_ctx and ?c2.0 = demo_ctx']
  have d1: "demo_alert_item \<noteq> demo_alert_item'"
  proof
    assume "demo_alert_item = demo_alert_item'"
    then have "AI_Status demo_alert_item = AI_Status demo_alert_item'" by simp
    then show False by (simp add: demo_alert_item_def demo_alert_item'_def)
  qed
  have d2: "demo_ctx \<noteq> demo_ctx'"
  proof
    assume "demo_ctx = demo_ctx'"
    then have "ErrorLogs demo_ctx = ErrorLogs demo_ctx'" by simp
    then show False by (simp add: demo_ctx_def demo_ctx'_def)
  qed
  from t demo_alert_items_agree have p1: "buildPrompt demo_lib demo_alert_item = buildPrompt demo_lib demo_alert_item'"
    by blast
  from t demo_ctxs_agree have p2: "buildContextPrompt demo_lib demo_ctx = buildContextPrompt demo_lib demo_ctx'"
    by blast
  from t have p3: "prompt_seen (Analyze demo_lib echo_provider ''id-1'' 1000 demo_alert_item) =
     prompt_seen (Analyze demo_lib echo_provider ''id-2'' 2000 demo_alert_item)"
    by blast
  from t have p4: "map_sum id prompt_seen (AnalyzeWithContext demo_lib echo_provider ''id-1'' 1000 demo_ctx) =
     map_sum id prompt_seen (AnalyzeWithContext demo_lib echo_provider ''id-2'' 2000 demo_ctx)"
    by blast
  from d1 d2 p1 p2 p3 p4 show ?thesis
    by blast
qed

end
